theory Spec2Isabelle
  imports Main
begin

section \<open>Data model\<close>

text \<open>
  The development follows the third (last) revision of the component in
  \<^verbatim>\<open>src/components/LiveSession.tsx\<close> (lines 932-1747) and \<^verbatim>\<open>src/types.ts\<close>.

  \<^verbatim>\<open>ConnectionState\<close> is the enum of \<^verbatim>\<open>types.ts\<close>.
\<close>

datatype ConnectionState = DISCONNECTED | CONNECTING | CONNECTED | ERROR

text \<open>
  \<^verbatim>\<open>ChatMessage\<close> (\<^verbatim>\<open>types.ts\<close>, lines 37-43) has the fields \<^verbatim>\<open>id\<close>, \<^verbatim>\<open>role\<close>,
  \<^verbatim>\<open>text\<close>, \<^verbatim>\<open>timestamp\<close> and the optional \<^verbatim>\<open>isPartial\<close>. The field names carry the
  prefix \<^verbatim>\<open>msg_\<close> here. A \<^verbatim>\<open>Date\<close> is its number of milliseconds.
\<close>

datatype Role = User | Model

record ChatMessage =
  msg_id :: string
  msg_role :: Role
  msg_text :: string
  msg_timestamp :: nat
  isPartial :: "bool option"





text \<open>
  A function call of a tool-call batch and the response sent for it. In the type of
  the client library \<^verbatim>\<open>id\<close>, \<^verbatim>\<open>name\<close> and \<^verbatim>\<open>args\<close> are optional, and so is the
  list \<^verbatim>\<open>functionCalls\<close> of a tool call: \<open>None\<close> is \<^verbatim>\<open>undefined\<close>. \<^verbatim>\<open>fc.args\<close> is an
  object read by property name (\<^verbatim>\<open>args.emotion\<close>): an association list, where a
  missing key reads as \<^verbatim>\<open>undefined\<close> too.
\<close>

record FunctionCall =
  fc_id :: "string option"
  fc_name :: "string option"
  fc_args :: "(string \<times> string) list option"

record LiveServerToolCall =
  functionCalls :: "FunctionCall list option"

record FunctionResponse =
  fr_id :: "string option"
  fr_name :: "string option"
  fr_response :: "(string \<times> string) list"

text \<open>
  The parts of a \<^verbatim>\<open>LiveServerMessage\<close> that \<^verbatim>\<open>onmessage\<close> reads:
  \<^verbatim>\<open>toolCall.functionCalls\<close>, \<^verbatim>\<open>serverContent.modelTurn.parts[0].inlineData.data\<close>,
  \<^verbatim>\<open>serverContent.inputTranscription.text\<close>, \<^verbatim>\<open>serverContent.outputTranscription.text\<close>,
  \<^verbatim>\<open>serverContent.turnComplete\<close> and \<^verbatim>\<open>serverContent.interrupted\<close>. One message may
  carry several of them.
\<close>

record LiveServerMessage =
  toolCall :: "LiveServerToolCall option"
  inlineData :: "string option"
  inputTranscription :: "string option"
  outputTranscription :: "string option"
  turnComplete :: bool
  interrupted :: bool

text \<open>
  The calls the component makes on objects outside it (audio nodes, the timer, the
  session), in the order it makes them. Nodes, timers and sessions are handles.
  The type \<open>'t\<close> is the type of the audio clock (a JavaScript number): the
  development uses its order, its addition and its zero only.
\<close>

datatype 't effect =
    SourceStart nat 't
  | SourceStop nat
  | NodeDisconnect nat
  | ClearInterval nat
  | SessionClose nat
  | SendToolResponse nat "FunctionResponse list"

text \<open>
  What a handler reads from its surroundings when it runs: the audio context's
  \<^verbatim>\<open>currentTime\<close>, \<^verbatim>\<open>Date.now()\<close>, the time string of \<^verbatim>\<open>addLog\<close>
  (\<^verbatim>\<open>new Date().toLocaleTimeString().split(' ')[0]\<close>), the node that
  \<^verbatim>\<open>ctx.createBufferSource()\<close> returns, and the two functions of
  \<^verbatim>\<open>services/audioUtils\<close>, which is not among the sources: \<^verbatim>\<open>decode\<close> (base64 text to
  bytes) and \<^verbatim>\<open>decodeAudioData\<close> (bytes to an audio buffer, of which the component
  reads the duration only). Both are parameters; \<open>None\<close> is a call that throws.
\<close>

record 't env =
  currentTime :: 't
  dateNow :: nat
  timeString :: string
  createBufferSource :: nat
  decode :: "string \<Rightarrow> nat list option"
  decodeAudioData :: "nat list \<Rightarrow> 't option"

text \<open>
  The state of the component: the React state variables and the refs of lines
  1006-1041 that the session engine uses, and the calls made so far.
\<close>

record 't State =
  connectionState :: ConnectionState
  mediaStream :: "nat option"
  errorMsg :: "string option"
  currentEmotion :: "string option"
  logs :: "string list"
  chatHistory :: "ChatMessage list"
  currentInput :: string
  currentOutput :: string
  nextStartTimeRef :: 't
  sessionPromiseRef :: "nat option"
  sourcesRef :: "nat list"
  currentInputRef :: string
  currentOutputRef :: string
  frameIntervalRef :: "nat option"
  scriptProcessorRef :: "nat option"
  inputSourceRef :: "nat option"
  effects :: "'t effect list"

text \<open>The state at mount (the arguments of \<^verbatim>\<open>useState\<close> and \<^verbatim>\<open>useRef\<close>).\<close>

definition initial :: "('t::zero) State" where
  "initial =
     \<lparr> connectionState = DISCONNECTED, mediaStream = None, errorMsg = None,
       currentEmotion = Some ''normal'', logs = [], chatHistory = [],
       currentInput = [], currentOutput = [], nextStartTimeRef = 0,
       sessionPromiseRef = None, sourcesRef = [], currentInputRef = [],
       currentOutputRef = [], frameIntervalRef = None, scriptProcessorRef = None,
       inputSourceRef = None, effects = [] \<rparr>"

section \<open>The debug log\<close>

text \<open>
  \<^verbatim>\<open>addLog\<close> (lines 1043-1045):
  \<^verbatim>\<open>setLogs(prev => [`[${time}] ${msg}`, ...prev].slice(0, 25))\<close>.
\<close>

definition log_entry :: "'t env \<Rightarrow> string \<Rightarrow> string" where
  "log_entry e msg = ''['' @ timeString e @ ''] '' @ msg"

definition addLog :: "'t env \<Rightarrow> string \<Rightarrow> 't State \<Rightarrow> 't State" where
  "addLog e msg s = s\<lparr>logs := take 25 (log_entry e msg # logs s)\<rparr>"

section \<open>Committing a transcript\<close>

text \<open>
  \<^verbatim>\<open>Date.now().toString()\<close>: the decimal digits of a natural number.
\<close>

definition digit_char :: "nat \<Rightarrow> char" where
  "digit_char d = ''0123456789'' ! d"

fun show_nat :: "nat \<Rightarrow> string" where
  "show_nat n = (if n < 10 then [digit_char n] else show_nat (n div 10) @ [digit_char (n mod 10)])"

declare show_nat.simps [simp del]

text \<open>
  The object literal of the four places that commit a transcript (lines 1219-1224,
  1250-1255, 1263-1268, 1282-1287): \<^verbatim>\<open>id\<close> is \<^verbatim>\<open>Date.now().toString()\<close> and a suffix,
  \<^verbatim>\<open>timestamp\<close> is \<^verbatim>\<open>new Date()\<close>, \<^verbatim>\<open>isPartial\<close> is not set. The updater appends the
  message to the history: \<^verbatim>\<open>prev => [...prev, message]\<close>.

  \<^verbatim>\<open>setChatHistory\<close> and \<^verbatim>\<open>setLogs\<close> take an updater function, which React runs when
  it next renders the component, after the handler that queued it has come to its
  end; the render is taken to happen before the next event is handled. The fields
  \<open>chatHistory\<close> and \<open>logs\<close> are the values after the queued updaters have run, in
  the order of their calls. Three of the four updaters of the history use a text
  that the handler has read into a constant before; for them the moment at which
  the updater runs makes no difference. The fourth one (lines 1282-1287) reads
  \<^verbatim>\<open>currentOutputRef.current\<close> itself, see \<open>flushInterrupted\<close> below.
\<close>

definition chatMessage :: "'t env \<Rightarrow> string \<Rightarrow> Role \<Rightarrow> string \<Rightarrow> ChatMessage" where
  "chatMessage e suffix r txt =
     \<lparr> msg_id = show_nat (dateNow e) @ suffix, msg_role = r, msg_text = txt,
       msg_timestamp = dateNow e, isPartial = None \<rparr>"

definition appendChat :: "ChatMessage \<Rightarrow> 't State \<Rightarrow> 't State" where
  "appendChat m s = s\<lparr>chatHistory := chatHistory s @ [m]\<rparr>"

section \<open>Teardown and the connection life cycle\<close>

text \<open>
  Stopping every source of the active set, clearing the set and resetting the cursor
  (lines 1077-1081 of \<^verbatim>\<open>stopEverything\<close>, lines 1276-1278 of \<^verbatim>\<open>onmessage\<close>). In
  \<^verbatim>\<open>stopEverything\<close> each \<^verbatim>\<open>stop()\<close> stands in a \<^verbatim>\<open>try\<close> with an empty \<^verbatim>\<open>catch\<close>; in
  \<^verbatim>\<open>onmessage\<close> it does not, and \<^verbatim>\<open>stop()\<close> throws only on a node that was never
  started, while a node enters the set after its \<^verbatim>\<open>start\<close> (line 1209 before 1211).
\<close>

definition stopSources :: "('t::zero) State \<Rightarrow> 't State" where
  "stopSources s =
     s\<lparr> effects := effects s @ map SourceStop (sourcesRef s),
        sourcesRef := [],
        nextStartTimeRef := 0 \<rparr>"

text \<open>
  \<^verbatim>\<open>stopEverything\<close> (lines 1063-1095). Timer ids and nodes are truthy, so each
  \<^verbatim>\<open>if (ref.current)\<close> is the test that the ref is not \<^verbatim>\<open>null\<close>. \<^verbatim>\<open>session.close()\<close>
  runs in a \<^verbatim>\<open>then\<close> of the session promise, inside a \<^verbatim>\<open>try\<close>; the effect recorded
  is that the close was asked for. No statement of the function can throw, so the
  model is a total function.
\<close>

definition clearFrameInterval :: "'t State \<Rightarrow> 't State" where
  "clearFrameInterval s =
     (case frameIntervalRef s of
        None \<Rightarrow> s
      | Some i \<Rightarrow> s\<lparr>effects := effects s @ [ClearInterval i], frameIntervalRef := None\<rparr>)"

definition disconnectScriptProcessor :: "'t State \<Rightarrow> 't State" where
  "disconnectScriptProcessor s =
     (case scriptProcessorRef s of
        None \<Rightarrow> s
      | Some n \<Rightarrow> s\<lparr>effects := effects s @ [NodeDisconnect n], scriptProcessorRef := None\<rparr>)"

definition disconnectInputSource :: "'t State \<Rightarrow> 't State" where
  "disconnectInputSource s =
     (case inputSourceRef s of
        None \<Rightarrow> s
      | Some n \<Rightarrow> s\<lparr>effects := effects s @ [NodeDisconnect n], inputSourceRef := None\<rparr>)"

definition closeSession :: "'t State \<Rightarrow> 't State" where
  "closeSession s =
     (case sessionPromiseRef s of
        None \<Rightarrow> s
      | Some p \<Rightarrow> s\<lparr>effects := effects s @ [SessionClose p], sessionPromiseRef := None\<rparr>)"

definition clearTranscript :: "'t State \<Rightarrow> 't State" where
  "clearTranscript s =
     s\<lparr>currentInput := [], currentOutput := [], currentInputRef := [], currentOutputRef := []\<rparr>"

definition stopEverything :: "('t::zero) env \<Rightarrow> 't State \<Rightarrow> 't State" where
  "stopEverything e s =
     (clearTranscript
       (closeSession
         (stopSources
           (disconnectInputSource
             (disconnectScriptProcessor
               (clearFrameInterval
                 (addLog e ''Stopping session...'' s)))))))
     \<lparr>connectionState := DISCONNECTED\<rparr>"

text \<open>
  \<^verbatim>\<open>connectToGemini\<close> (lines 1097-1313) up to the installation of the callbacks. The
  argument \<open>conn\<close> is what \<^verbatim>\<open>ai.live.connect\<close> does: it returns a session promise
  (\<open>Inr\<close>, a handle) or throws an error with a message (\<open>Inl\<close>);
  \<^verbatim>\<open>err.message || "Failed to connect"\<close> replaces an empty message. The statements
  before the \<^verbatim>\<open>try\<close> (the client object, the audio context) are taken not to throw.
\<close>

definition connectToGemini :: "'t env \<Rightarrow> string + nat \<Rightarrow> 't State \<Rightarrow> 't State" where
  "connectToGemini e conn s =
     (if mediaStream s = None then addLog e ''Error: No media stream found'' s
      else
        let s1 = addLog e ''Connecting to Gemini...''
                   (s\<lparr>errorMsg := None, connectionState := CONNECTING\<rparr>)
        in case conn of
             Inr p \<Rightarrow> s1\<lparr>sessionPromiseRef := Some p\<rparr>
           | Inl m \<Rightarrow>
               (addLog e (''Init Error: '' @ m) s1)
                 \<lparr> errorMsg := Some (if m = [] then ''Failed to connect'' else m),
                   connectionState := ERROR \<rparr>)"

text \<open>
  The callbacks \<^verbatim>\<open>onopen\<close> (lines 1132-1177; \<open>src\<close> and \<open>proc\<close> are the nodes it
  creates, \<open>timer\<close> the interval it sets when the video and canvas elements exist),
  \<^verbatim>\<open>onclose\<close> (lines 1293-1296) and \<^verbatim>\<open>onerror\<close> (lines 1297-1303).
\<close>

definition onopen :: "'t env \<Rightarrow> nat \<Rightarrow> nat \<Rightarrow> nat option \<Rightarrow> 't State \<Rightarrow> 't State" where
  "onopen e src proc timer s =
     (let s1 = (addLog e ''Session Connected'' s)
                 \<lparr> connectionState := CONNECTED,
                   inputSourceRef := Some src,
                   scriptProcessorRef := Some proc \<rparr>
      in case timer of None \<Rightarrow> s1 | Some i \<Rightarrow> s1\<lparr>frameIntervalRef := Some i\<rparr>)"

definition onclose :: "'t env \<Rightarrow> 't State \<Rightarrow> 't State" where
  "onclose e s = (addLog e ''Session Closed'' s)\<lparr>connectionState := DISCONNECTED\<rparr>"

definition onerror :: "('t::zero) env \<Rightarrow> string \<Rightarrow> 't State \<Rightarrow> 't State" where
  "onerror e m s =
     stopEverything e
       ((addLog e (''Session Error: '' @ m) s)
          \<lparr> errorMsg := Some ''Connection error occurred.'',
            connectionState := ERROR \<rparr>)"

text \<open>\<^verbatim>\<open>toggleConnection\<close> (lines 1315-1321), the control behind the call button.\<close>

definition toggleConnection :: "('t::zero) env \<Rightarrow> string + nat \<Rightarrow> 't State \<Rightarrow> 't State" where
  "toggleConnection e conn s =
     (if connectionState s = CONNECTED \<or> connectionState s = CONNECTING
      then stopEverything e s
      else connectToGemini e conn s)"

text \<open>The \<^verbatim>\<open>onended\<close> callback of a source (lines 1212-1214).\<close>

definition onended :: "nat \<Rightarrow> 't State \<Rightarrow> 't State" where
  "onended source s = s\<lparr>sourcesRef := removeAll source (sourcesRef s)\<rparr>"

section \<open>The inbound message handler\<close>

text \<open>
  \<^verbatim>\<open>onmessage\<close> (lines 1178-1292) handles the parts of a message in a fixed order:
  tool calls, audio, user transcription, model transcription, turn complete,
  interruption. Each part is a function here and \<open>onmessage\<close> composes them in the
  order of the source. JavaScript's \<^verbatim>\<open>if (text)\<close> on a string is the test that the
  string is present (\<open>Some\<close>) and not empty.

  The handler is \<^verbatim>\<open>async\<close> and awaits \<^verbatim>\<open>decodeAudioData\<close> once (line 1205). A call is
  taken to run to its end before the next event is handled.
\<close>

datatype error = DecodeError | TypeError

text \<open>
  Tool calls (lines 1180-1197). The loop keeps the state and the list
  \<^verbatim>\<open>responses\<close>; a call whose name is not \<^verbatim>\<open>set_emotion\<close> is passed over. For a call
  named \<^verbatim>\<open>set_emotion\<close>, line 1185 reads \<^verbatim>\<open>args.emotion\<close> first: when \<^verbatim>\<open>fc.args\<close> is
  \<^verbatim>\<open>undefined\<close> this throws a \<^verbatim>\<open>TypeError\<close>, and so does the \<^verbatim>\<open>for ... of\<close> of line
  1182 when \<^verbatim>\<open>functionCalls\<close> is \<^verbatim>\<open>undefined\<close>. Nothing catches it: the handler ends
  there (\<open>Inl\<close>, with the state reached, which holds what the earlier calls of the
  batch have set) and no response is sent. Otherwise the responses, when there are
  any, go out in one \<^verbatim>\<open>sendToolResponse\<close> on the session \<open>sess\<close> of the connection.
\<close>

definition emotion_text :: "string option \<Rightarrow> string" where
  "emotion_text x = (case x of None \<Rightarrow> ''undefined'' | Some v \<Rightarrow> v)"

definition success_response :: "FunctionCall \<Rightarrow> FunctionResponse" where
  "success_response fc =
     \<lparr> fr_id = fc_id fc, fr_name = fc_name fc, fr_response = [(''result'', ''success'')] \<rparr>"

fun toolCall_loop ::
  "'t env \<Rightarrow> FunctionCall list \<Rightarrow> 't State \<times> FunctionResponse list
     \<Rightarrow> (error \<times> 't State) + ('t State \<times> FunctionResponse list)" where
  "toolCall_loop e [] acc = Inr acc"
| "toolCall_loop e (fc # fcs) (s, responses) =
     (if fc_name fc = Some ''set_emotion''
      then
        (case fc_args fc of
           None \<Rightarrow> Inl (TypeError, s)
         | Some args \<Rightarrow>
             let emotion = map_of args ''emotion'';
                 s1 = addLog e (''Tool: set_emotion('' @ emotion_text emotion @ '')'') s;
                 s2 = s1\<lparr>currentEmotion := emotion\<rparr>
             in toolCall_loop e fcs (s2, responses @ [success_response fc]))
      else toolCall_loop e fcs (s, responses))"

definition onmessage_toolCall ::
  "'t env \<Rightarrow> nat \<Rightarrow> LiveServerMessage \<Rightarrow> 't State \<Rightarrow> (error \<times> 't State) + 't State" where
  "onmessage_toolCall e sess msg s =
     (case toolCall msg of
        None \<Rightarrow> Inr s
      | Some tc \<Rightarrow>
          (case functionCalls tc of
             None \<Rightarrow> Inl (TypeError, s)
           | Some fcs \<Rightarrow>
               (case toolCall_loop e fcs (s, []) of
                  Inl err \<Rightarrow> Inl err
                | Inr (s1, responses) \<Rightarrow>
                    Inr (if responses \<noteq> []
                         then s1\<lparr>effects := effects s1 @ [SendToolResponse sess responses]\<rparr>
                         else s1))))"

text \<open>
  Audio (lines 1199-1228). \<^verbatim>\<open>decode\<close> runs before the cursor is raised to the
  current time and \<^verbatim>\<open>decodeAudioData\<close> after it; when one of them throws the handler
  ends there (\<open>Inl\<close>, with the state reached). Otherwise the source is started at the
  cursor, the cursor advances by the duration of the buffer, the source joins the
  active set (a \<^verbatim>\<open>Set\<close>: no duplicates, insertion order), and a user transcript that
  is not empty is committed.
\<close>

definition flushUserInput :: "'t env \<Rightarrow> 't State \<Rightarrow> 't State" where
  "flushUserInput e s =
     (if currentInputRef s \<noteq> []
      then (appendChat (chatMessage e ''-user'' User (currentInputRef s)) s)
             \<lparr>currentInputRef := [], currentInput := []\<rparr>
      else s)"

definition addSource :: "nat \<Rightarrow> 't State \<Rightarrow> 't State" where
  "addSource source s =
     s\<lparr>sourcesRef := (if source \<in> set (sourcesRef s) then sourcesRef s
                      else sourcesRef s @ [source])\<rparr>"

definition onmessage_audio ::
  "('t::{linorder,plus}) env \<Rightarrow> LiveServerMessage \<Rightarrow> 't State \<Rightarrow> (error \<times> 't State) + 't State" where
  "onmessage_audio e msg s =
     (case inlineData msg of
        None \<Rightarrow> Inr s
      | Some base64Audio \<Rightarrow>
          if base64Audio = [] then Inr s
          else
            (case decode e base64Audio of
               None \<Rightarrow> Inl (DecodeError, s)
             | Some audioData \<Rightarrow>
                 let s1 = s\<lparr>nextStartTimeRef := max (nextStartTimeRef s) (currentTime e)\<rparr>
                 in (case decodeAudioData e audioData of
                       None \<Rightarrow> Inl (DecodeError, s1)
                     | Some duration \<Rightarrow>
                         let source = createBufferSource e;
                             s2 = s1\<lparr>effects := effects s1 @ [SourceStart source (nextStartTimeRef s1)]\<rparr>;
                             s3 = s2\<lparr>nextStartTimeRef := nextStartTimeRef s2 + duration\<rparr>;
                             s4 = addSource source s3
                         in Inr (flushUserInput e s4))))"

text \<open>Transcription deltas (lines 1230-1243).\<close>

definition onmessage_inputTranscription :: "LiveServerMessage \<Rightarrow> 't State \<Rightarrow> 't State" where
  "onmessage_inputTranscription msg s =
     (case inputTranscription msg of
        None \<Rightarrow> s
      | Some txt \<Rightarrow>
          if txt = [] then s
          else s\<lparr>currentInputRef := currentInputRef s @ txt,
                 currentInput := currentInputRef s @ txt\<rparr>)"

definition onmessage_outputTranscription :: "LiveServerMessage \<Rightarrow> 't State \<Rightarrow> 't State" where
  "onmessage_outputTranscription msg s =
     (case outputTranscription msg of
        None \<Rightarrow> s
      | Some txt \<Rightarrow>
          if txt = [] then s
          else s\<lparr>currentOutputRef := currentOutputRef s @ txt,
                 currentOutput := currentOutputRef s @ txt\<rparr>)"

text \<open>Turn complete (lines 1245-1272): the model transcript first, then the user's.\<close>

definition flushModelOutput :: "'t env \<Rightarrow> 't State \<Rightarrow> 't State" where
  "flushModelOutput e s =
     (if currentOutputRef s \<noteq> []
      then (appendChat (chatMessage e ''-model'' Model (currentOutputRef s)) s)
             \<lparr>currentOutputRef := [], currentOutput := []\<rparr>
      else s)"

definition onmessage_turnComplete :: "'t env \<Rightarrow> LiveServerMessage \<Rightarrow> 't State \<Rightarrow> 't State" where
  "onmessage_turnComplete e msg s =
     (if turnComplete msg then flushUserInput e (flushModelOutput e s) else s)"

text \<open>
  Interruption (lines 1274-1291). The updater that commits the transcript is the
  function \<^verbatim>\<open>prev => [...prev, {..., text: currentOutputRef.current + ' ...'}]\<close>: it
  reads the ref when it runs. \<^verbatim>\<open>addLog\<close> (line 1275) has queued an update of the
  component before, so React queues this updater as well and runs it at the next
  render; by then line 1288 has stored the empty string in the ref. The message is
  therefore built from the state that lines 1288-1289 leave.
\<close>

definition flushInterrupted :: "'t env \<Rightarrow> 't State \<Rightarrow> 't State" where
  "flushInterrupted e s =
     (if currentOutputRef s \<noteq> []
      then
        let s1 = s\<lparr>currentOutputRef := [], currentOutput := []\<rparr>
        in appendChat (chatMessage e ''-model-interrupted'' Model (currentOutputRef s1 @ '' ...'')) s1
      else s)"

definition onmessage_interrupted ::
  "('t::zero) env \<Rightarrow> LiveServerMessage \<Rightarrow> 't State \<Rightarrow> 't State" where
  "onmessage_interrupted e msg s =
     (if interrupted msg
      then flushInterrupted e (stopSources (addLog e ''Model interrupted'' s))
      else s)"

definition onmessage ::
  "('t::{linorder,plus,zero}) env \<Rightarrow> nat \<Rightarrow> LiveServerMessage \<Rightarrow> 't State
     \<Rightarrow> (error \<times> 't State) + 't State" where
  "onmessage e sess msg s =
     (case onmessage_toolCall e sess msg s of
        Inl err \<Rightarrow> Inl err
      | Inr s1 \<Rightarrow>
          (case onmessage_audio e msg s1 of
             Inl err \<Rightarrow> Inl err
           | Inr s2 \<Rightarrow>
               Inr (onmessage_interrupted e msg
                     (onmessage_turnComplete e msg
                       (onmessage_outputTranscription msg
                         (onmessage_inputTranscription msg s2))))))"

text \<open>
  The state a call of the handler leaves, whether it ended or threw, and the error
  it threw, if it did.
\<close>

fun state_after :: "(error \<times> 't State) + 't State \<Rightarrow> 't State" where
  "state_after (Inl (err, s)) = s"
| "state_after (Inr s) = s"

fun thrown :: "(error \<times> 't State) + 't State \<Rightarrow> error option" where
  "thrown (Inl (err, s)) = Some err"
| "thrown (Inr s) = None"

section \<open>Events\<close>

text \<open>
  The events that reach the component, each with what it reads from its surroundings:
  the media stream becoming available (line 1335), the call button, the transport's
  callbacks, the end of a source, the teardown at unmount (line 1348), and a log
  entry written by the diagnostics of the presentation layer.
\<close>

datatype 't event =
    MediaReady nat
  | Toggle "'t env" "string + nat"
  | Open "'t env" nat nat "nat option"
  | Message "'t env" nat LiveServerMessage
  | Close "'t env"
  | Error "'t env" string
  | Ended nat
  | Unmount "'t env"
  | Log "'t env" string

fun step :: "('t::{linorder,plus,zero}) State \<Rightarrow> 't event \<Rightarrow> 't State" where
  "step s (MediaReady m) = s\<lparr>mediaStream := Some m\<rparr>"
| "step s (Toggle e conn) = toggleConnection e conn s"
| "step s (Open e src proc timer) = onopen e src proc timer s"
| "step s (Message e sess msg) = state_after (onmessage e sess msg s)"
| "step s (Close e) = onclose e s"
| "step s (Error e m) = onerror e m s"
| "step s (Ended source) = onended source s"
| "step s (Unmount e) = stopEverything e s"
| "step s (Log e m) = addLog e m s"

definition run :: "('t::{linorder,plus,zero}) State \<Rightarrow> 't event list \<Rightarrow> 't State" where
  "run s evs = foldl step s evs"

section \<open>Messages with one part, and what the properties speak about\<close>

text \<open>A message with no part, and the messages that carry exactly one part.\<close>

definition no_parts :: LiveServerMessage where
  "no_parts =
     \<lparr> toolCall = None, inlineData = None, inputTranscription = None,
       outputTranscription = None, turnComplete = False, interrupted = False \<rparr>"

definition audio_message :: "string \<Rightarrow> LiveServerMessage" where
  "audio_message b = no_parts\<lparr>inlineData := Some b\<rparr>"

definition input_delta :: "string \<Rightarrow> LiveServerMessage" where
  "input_delta txt = no_parts\<lparr>inputTranscription := Some txt\<rparr>"

definition output_delta :: "string \<Rightarrow> LiveServerMessage" where
  "output_delta txt = no_parts\<lparr>outputTranscription := Some txt\<rparr>"

definition turnComplete_message :: LiveServerMessage where
  "turnComplete_message = no_parts\<lparr>turnComplete := True\<rparr>"

definition interrupted_message :: LiveServerMessage where
  "interrupted_message = no_parts\<lparr>interrupted := True\<rparr>"

definition toolCall_message :: "FunctionCall list \<Rightarrow> LiveServerMessage" where
  "toolCall_message fcs = no_parts\<lparr>toolCall := Some \<lparr>functionCalls = Some fcs\<rparr>\<rparr>"

text \<open>
  The duration of the buffer that a payload decodes to, \<open>None\<close> when \<^verbatim>\<open>decode\<close> or
  \<^verbatim>\<open>decodeAudioData\<close> throws; and the test that the audio part of a message, if it
  has one, decodes.
\<close>

definition payload_duration :: "'t env \<Rightarrow> string \<Rightarrow> 't option" where
  "payload_duration e b =
     (case decode e b of None \<Rightarrow> None | Some audioData \<Rightarrow> decodeAudioData e audioData)"

definition audio_ok :: "'t env \<Rightarrow> LiveServerMessage \<Rightarrow> bool" where
  "audio_ok e msg =
     (case inlineData msg of
        None \<Rightarrow> True
      | Some b \<Rightarrow> b = [] \<or> payload_duration e b \<noteq> None)"

text \<open>The times at which sources were started, in the order of the calls.\<close>

fun starts :: "'t effect list \<Rightarrow> 't list" where
  "starts [] = []"
| "starts (SourceStart h t # es) = t # starts es"
| "starts (x # es) = starts es"

text \<open>
  The rule of the specification's \<^verbatim>\<open>enqueue\<close>, for a cursor and a list of pairs of
  the current time and the duration:
  \<^verbatim>\<open>startTime = max(nextStartTime, currentTransportTime)\<close>, then
  \<^verbatim>\<open>nextStartTime = startTime + duration\<close>. The handler is compared with it.
\<close>

fun schedule :: "('t::{linorder,plus}) \<Rightarrow> ('t \<times> 't) list \<Rightarrow> 't list" where
  "schedule c [] = []"
| "schedule c ((now, d) # xs) = max c now # schedule (max c now + d) xs"

text \<open>
  Sequences of messages with one part each. An audio payload comes with the
  surroundings of its handling and with its duration, a delta with the surroundings
  of its handling.
\<close>

definition audio_events :: "nat \<Rightarrow> ('t env \<times> string \<times> 't) list \<Rightarrow> 't event list" where
  "audio_events sess xs = map (\<lambda>(e, b, d). Message e sess (audio_message b)) xs"

definition arrivals :: "('t env \<times> string \<times> 't) list \<Rightarrow> ('t \<times> 't) list" where
  "arrivals xs = map (\<lambda>(e, b, d). (currentTime e, d)) xs"

definition input_events :: "nat \<Rightarrow> ('t env \<times> string) list \<Rightarrow> 't event list" where
  "input_events sess xs = map (\<lambda>(e, txt). Message e sess (input_delta txt)) xs"

definition output_events :: "nat \<Rightarrow> ('t env \<times> string) list \<Rightarrow> 't event list" where
  "output_events sess xs = map (\<lambda>(e, txt). Message e sess (output_delta txt)) xs"

text \<open>
  The tool of the session, \<^verbatim>\<open>emotionTool\<close> (lines 960-974): its name and the
  enumeration it declares for the argument \<^verbatim>\<open>emotion\<close>. The argument of a call is
  \<^verbatim>\<open>args.emotion\<close>, where the call has an \<^verbatim>\<open>args\<close> object.
\<close>

definition known_call :: "FunctionCall \<Rightarrow> bool" where
  "known_call fc = (fc_name fc = Some ''set_emotion'')"

definition emotion_arg :: "FunctionCall \<Rightarrow> string option" where
  "emotion_arg fc = (case fc_args fc of None \<Rightarrow> None | Some args \<Rightarrow> map_of args ''emotion'')"

definition emotion_enum :: "string list" where
  "emotion_enum =
     [''normal'', ''anger'', ''annoyed'', ''disgust'', ''fear'', ''foodie'', ''guilt'',
      ''joy'', ''loving'', ''playful'', ''sadness'', ''shame'']"

definition declared_emotion :: "string option \<Rightarrow> bool" where
  "declared_emotion x = (case x of None \<Rightarrow> False | Some v \<Rightarrow> v \<in> set emotion_enum)"

text \<open>
  A call that the loop can handle: it is not named \<^verbatim>\<open>set_emotion\<close> or it has an
  \<^verbatim>\<open>args\<close> object. The tool-call part of a message is well formed when there is none,
  or its list of calls is there and the loop can handle every call.
\<close>

definition call_ok :: "FunctionCall \<Rightarrow> bool" where
  "call_ok fc = (known_call fc \<longrightarrow> fc_args fc \<noteq> None)"

definition toolCall_ok :: "LiveServerMessage \<Rightarrow> bool" where
  "toolCall_ok msg =
     (case toolCall msg of
        None \<Rightarrow> True
      | Some tc \<Rightarrow>
          (case functionCalls tc of None \<Rightarrow> False | Some fcs \<Rightarrow> list_all call_ok fcs))"

text \<open>
  An event whose \<^verbatim>\<open>set_emotion\<close> calls, if it has any, all carry a member of the
  declared enumeration as their argument.
\<close>

fun calls_declared :: "'t event \<Rightarrow> bool" where
  "calls_declared (Message e sess msg) =
     (case toolCall msg of
        None \<Rightarrow> True
      | Some tc \<Rightarrow>
          (case functionCalls tc of
             None \<Rightarrow> True
           | Some fcs \<Rightarrow> list_all declared_emotion (map emotion_arg (filter known_call fcs))))"
| "calls_declared ev = True"

text \<open>An event that carries a \<^verbatim>\<open>set_emotion\<close> call.\<close>

fun sets_emotion :: "'t event \<Rightarrow> bool" where
  "sets_emotion (Message e sess msg) =
     (case toolCall msg of
        None \<Rightarrow> False
      | Some tc \<Rightarrow>
          (case functionCalls tc of None \<Rightarrow> False | Some fcs \<Rightarrow> filter known_call fcs \<noteq> []))"
| "sets_emotion ev = False"

subsection \<open>Concrete surroundings and inputs\<close>

text \<open>
  Surroundings over an integer clock, for the concrete runs below: the current time
  is given, every payload decodes, and the buffer lasts as many units as the payload
  has characters.
\<close>

definition demo_env :: "int \<Rightarrow> int env" where
  "demo_env now =
     \<lparr> currentTime = now, dateNow = 7, timeString = ''12:00:00'', createBufferSource = 1,
       decode = (\<lambda>b. Some [length b]),
       decodeAudioData = (\<lambda>bytes. case bytes of [] \<Rightarrow> None | n # _ \<Rightarrow> Some (int n)) \<rparr>"

text \<open>
  A \<^verbatim>\<open>set_emotion\<close> call with its argument, a call of a tool that the component does
  not have, and a \<^verbatim>\<open>set_emotion\<close> call without an \<^verbatim>\<open>args\<close> object.
\<close>

definition set_emotion_call :: "string \<Rightarrow> string \<Rightarrow> FunctionCall" where
  "set_emotion_call i v =
     \<lparr> fc_id = Some i, fc_name = Some ''set_emotion'', fc_args = Some [(''emotion'', v)] \<rparr>"

definition other_call :: "string \<Rightarrow> FunctionCall" where
  "other_call i = \<lparr> fc_id = Some i, fc_name = Some ''get_weather'', fc_args = Some [] \<rparr>"

definition bare_call :: "string \<Rightarrow> FunctionCall" where
  "bare_call i = \<lparr> fc_id = Some i, fc_name = Some ''set_emotion'', fc_args = None \<rparr>"

section \<open>Auxiliary facts\<close>

subsection \<open>The tool-call part of the handler\<close>

lemma starts_append: "starts (xs @ ys) = starts xs @ starts ys"
  by (induction xs rule: starts.induct) simp_all

lemma toolCall_loop_keeps_Inr:
  "toolCall_loop e fcs (s, rs) = Inr (s', rs') \<Longrightarrow>
     nextStartTimeRef s' = nextStartTimeRef s \<and> effects s' = effects s
     \<and> sourcesRef s' = sourcesRef s \<and> chatHistory s' = chatHistory s
     \<and> currentInputRef s' = currentInputRef s \<and> currentOutputRef s' = currentOutputRef s
     \<and> connectionState s' = connectionState s \<and> mediaStream s' = mediaStream s"
  by (induction e fcs "(s, rs)" arbitrary: s rs rule: toolCall_loop.induct)
     (auto simp: addLog_def Let_def split: if_splits option.splits)

lemma toolCall_loop_keeps_Inl:
  "toolCall_loop e fcs (s, rs) = Inl (err, s') \<Longrightarrow>
     nextStartTimeRef s' = nextStartTimeRef s \<and> effects s' = effects s
     \<and> sourcesRef s' = sourcesRef s \<and> chatHistory s' = chatHistory s
     \<and> currentInputRef s' = currentInputRef s \<and> currentOutputRef s' = currentOutputRef s
     \<and> connectionState s' = connectionState s \<and> mediaStream s' = mediaStream s"
  by (induction e fcs "(s, rs)" arbitrary: s rs rule: toolCall_loop.induct)
     (auto simp: addLog_def Let_def split: if_splits option.splits)

lemma toolCall_loop_emotion_Inr:
  "toolCall_loop e fcs (s, rs) = Inr (s', rs') \<Longrightarrow>
     currentEmotion s' = currentEmotion s
     \<or> currentEmotion s' \<in> emotion_arg ` set (filter known_call fcs)"
  by (induction e fcs "(s, rs)" arbitrary: s rs rule: toolCall_loop.induct)
     (auto simp: addLog_def Let_def known_call_def emotion_arg_def
        split: if_splits option.splits)

lemma toolCall_loop_emotion_Inl:
  "toolCall_loop e fcs (s, rs) = Inl (err, s') \<Longrightarrow>
     currentEmotion s' = currentEmotion s
     \<or> currentEmotion s' \<in> emotion_arg ` set (filter known_call fcs)"
  by (induction e fcs "(s, rs)" arbitrary: s rs rule: toolCall_loop.induct)
     (auto simp: addLog_def Let_def known_call_def emotion_arg_def
        split: if_splits option.splits)

lemma toolCall_loop_result:
  "list_all call_ok fcs \<Longrightarrow>
     \<exists>s'. toolCall_loop e fcs (s, rs)
            = Inr (s', rs @ map success_response (filter known_call fcs))
        \<and> currentEmotion s' =
            (if filter known_call fcs = [] then currentEmotion s
             else emotion_arg (last (filter known_call fcs)))"
proof (induction fcs arbitrary: s rs)
  case Nil
  then show ?case by simp
next
  case (Cons fc fcs)
  then have ok: "call_ok fc" "list_all call_ok fcs" by simp_all
  show ?case
  proof (cases "known_call fc")
    case True
    with ok(1) obtain args where args: "fc_args fc = Some args"
      by (auto simp: call_ok_def)
    let ?s2 = "(addLog e (''Tool: set_emotion('' @ emotion_text (map_of args ''emotion'') @ '')'') s)
                 \<lparr>currentEmotion := map_of args ''emotion''\<rparr>"
    from Cons.IH [OF ok(2), of ?s2 "rs @ [success_response fc]"]
    obtain s' where s': "toolCall_loop e fcs (?s2, rs @ [success_response fc])
          = Inr (s', (rs @ [success_response fc]) @ map success_response (filter known_call fcs))"
      "currentEmotion s' =
          (if filter known_call fcs = [] then currentEmotion ?s2
           else emotion_arg (last (filter known_call fcs)))"
      by blast
    have "toolCall_loop e (fc # fcs) (s, rs)
        = toolCall_loop e fcs (?s2, rs @ [success_response fc])"
      using True args by (simp add: known_call_def Let_def)
    with s' True args show ?thesis
      by (simp add: emotion_arg_def)
  next
    case False
    from Cons.IH [OF ok(2), of s rs]
    obtain s' where s': "toolCall_loop e fcs (s, rs)
          = Inr (s', rs @ map success_response (filter known_call fcs))"
      "currentEmotion s' =
          (if filter known_call fcs = [] then currentEmotion s
           else emotion_arg (last (filter known_call fcs)))"
      by blast
    have "toolCall_loop e (fc # fcs) (s, rs) = toolCall_loop e fcs (s, rs)"
      using False by (simp add: known_call_def)
    with s' False show ?thesis by simp
  qed
qed

lemma onmessage_toolCall_returns:
  "toolCall_ok msg \<Longrightarrow> \<exists>s1. onmessage_toolCall e sess msg s = Inr s1"
proof (cases "toolCall msg")
  case None
  then show ?thesis by (simp add: onmessage_toolCall_def)
next
  case (Some tc)
  assume "toolCall_ok msg"
  with Some obtain fcs where fcs: "functionCalls tc = Some fcs" "list_all call_ok fcs"
    by (auto simp: toolCall_ok_def split: option.splits)
  from toolCall_loop_result [OF fcs(2), of e s "[]"] Some fcs(1)
  show ?thesis by (auto simp: onmessage_toolCall_def)
qed

lemma onmessage_toolCall_keeps:
  "nextStartTimeRef (state_after (onmessage_toolCall e sess msg s)) = nextStartTimeRef s
   \<and> starts (effects (state_after (onmessage_toolCall e sess msg s))) = starts (effects s)
   \<and> sourcesRef (state_after (onmessage_toolCall e sess msg s)) = sourcesRef s
   \<and> chatHistory (state_after (onmessage_toolCall e sess msg s)) = chatHistory s
   \<and> currentInputRef (state_after (onmessage_toolCall e sess msg s)) = currentInputRef s
   \<and> currentOutputRef (state_after (onmessage_toolCall e sess msg s)) = currentOutputRef s
   \<and> connectionState (state_after (onmessage_toolCall e sess msg s)) = connectionState s
   \<and> mediaStream (state_after (onmessage_toolCall e sess msg s)) = mediaStream s"
  by (auto simp: onmessage_toolCall_def starts_append
      split: option.splits sum.splits prod.splits
      dest: toolCall_loop_keeps_Inr toolCall_loop_keeps_Inl)

lemma onmessage_toolCall_result:
  assumes "toolCall msg = Some tc" "functionCalls tc = Some fcs" "list_all call_ok fcs"
  shows "\<exists>s1. onmessage_toolCall e sess msg s = Inr s1
     \<and> effects s1 = effects s
           @ (if filter known_call fcs = [] then []
              else [SendToolResponse sess (map success_response (filter known_call fcs))])
     \<and> currentEmotion s1 =
         (if filter known_call fcs = [] then currentEmotion s
          else emotion_arg (last (filter known_call fcs)))"
proof -
  from toolCall_loop_result [OF assms(3), of e s "[]"]
  obtain s' where s': "toolCall_loop e fcs (s, [])
      = Inr (s', map success_response (filter known_call fcs))"
    "currentEmotion s' =
        (if filter known_call fcs = [] then currentEmotion s
         else emotion_arg (last (filter known_call fcs)))"
    by auto
  from toolCall_loop_keeps_Inr [OF s'(1)] have "effects s' = effects s" by simp
  with s' assms(1,2) show ?thesis
    by (simp add: onmessage_toolCall_def)
qed

lemma onmessage_toolCall_emotion:
  "currentEmotion (state_after (onmessage_toolCall e sess msg s)) = currentEmotion s
   \<or> (\<exists>tc fcs. toolCall msg = Some tc \<and> functionCalls tc = Some fcs
        \<and> currentEmotion (state_after (onmessage_toolCall e sess msg s))
             \<in> emotion_arg ` set (filter known_call fcs))"
proof (cases "toolCall msg")
  case None
  then show ?thesis by (simp add: onmessage_toolCall_def)
next
  case (Some tc)
  show ?thesis
  proof (cases "functionCalls tc")
    case None
    with Some show ?thesis by (simp add: onmessage_toolCall_def)
  next
    case fcs: (Some fcs)
    show ?thesis
    proof (cases "toolCall_loop e fcs (s, [])")
      case (Inl a)
      obtain err s' where a: "a = (err, s')" by (cases a)
      with Inl toolCall_loop_emotion_Inl [of e fcs s "[]" err s'] Some fcs
      show ?thesis by (auto simp: onmessage_toolCall_def)
    next
      case (Inr b)
      obtain s' rs' where b: "b = (s', rs')" by (cases b)
      with Inr toolCall_loop_emotion_Inr [of e fcs s "[]" s' rs'] Some fcs
      show ?thesis by (auto simp: onmessage_toolCall_def)
    qed
  qed
qed

subsection \<open>The schedule of the sources\<close>

lemma onmessage_audio_schedules:
  assumes "inlineData msg = Some b" "b \<noteq> []" "payload_duration e b = Some d"
  shows "\<exists>s'. onmessage_audio e msg s = Inr s'
     \<and> effects s' = effects s @ [SourceStart (createBufferSource e) (max (nextStartTimeRef s) (currentTime e))]
     \<and> nextStartTimeRef s' = max (nextStartTimeRef s) (currentTime e) + d"
  using assms
  by (auto simp: onmessage_audio_def payload_duration_def Let_def addSource_def
      flushUserInput_def appendChat_def split: option.splits)

lemma schedule_length: "length (schedule c xs) = length xs"
  by (induction c xs rule: schedule.induct) simp_all

lemma schedule_gapless:
  "Suc i < length xs \<Longrightarrow> fst (xs ! Suc i) \<le> schedule c xs ! i + snd (xs ! i)
     \<Longrightarrow> schedule c xs ! Suc i = schedule c xs ! i + snd (xs ! i)"
proof (induction c xs arbitrary: i rule: schedule.induct)
  case (1 c)
  then show ?case by simp
next
  case (2 c now d xs)
  show ?case
  proof (cases i)
    case 0
    with 2 obtain now' d' ys where xs: "xs = (now', d') # ys"
      by (cases xs) auto
    with 0 "2.prems" show ?thesis by (simp add: max_absorb1)
  next
    case (Suc j)
    with 2 show ?thesis by simp
  qed
qed

lemma schedule_first: "xs \<noteq> [] \<Longrightarrow> schedule c xs ! 0 = max c (fst (xs ! 0))"
  by (cases xs) auto

lemma onmessage_schedules:
  fixes s :: "('t::{linorder,plus,zero}) State"
  assumes "toolCall_ok msg" "inlineData msg = Some b" "b \<noteq> []" "payload_duration e b = Some d"
  shows "\<exists>s'. onmessage e sess msg s = Inr s'
     \<and> starts (effects s') = starts (effects s) @ [max (nextStartTimeRef s) (currentTime e)]
     \<and> nextStartTimeRef s' =
         (if interrupted msg then 0 else max (nextStartTimeRef s) (currentTime e) + d)"
proof -
  from onmessage_toolCall_returns [OF assms(1), of e sess s]
  obtain s1 where s1: "onmessage_toolCall e sess msg s = Inr s1" by blast
  with onmessage_toolCall_keeps [of e sess msg s]
  have k: "nextStartTimeRef s1 = nextStartTimeRef s" "starts (effects s1) = starts (effects s)"
    by simp_all
  from onmessage_audio_schedules [OF assms(2,3,4), of s1]
  obtain s2 where s2: "onmessage_audio e msg s1 = Inr s2"
    "effects s2 = effects s1 @ [SourceStart (createBufferSource e) (max (nextStartTimeRef s1) (currentTime e))]"
    "nextStartTimeRef s2 = max (nextStartTimeRef s1) (currentTime e) + d"
    by blast
  have "starts (effects s2) = starts (effects s) @ [max (nextStartTimeRef s) (currentTime e)]"
    using s2 k by (simp add: starts_append)
  moreover have "nextStartTimeRef s2 = max (nextStartTimeRef s) (currentTime e) + d"
    using s2 k by simp
  moreover have stops: "starts (map SourceStop hs) = []" for hs :: "nat list"
    by (induction hs) simp_all
  ultimately show ?thesis
    using s1 s2(1)
    by (simp add: onmessage_def onmessage_interrupted_def onmessage_turnComplete_def
        onmessage_outputTranscription_def onmessage_inputTranscription_def
        flushInterrupted_def flushUserInput_def flushModelOutput_def stopSources_def
        appendChat_def addLog_def Let_def starts_append stops split: option.splits)
qed

lemma run_Cons: "run s (ev # evs) = run (step s ev) evs"
  by (simp add: run_def)

lemma run_audio_events:
  fixes s :: "('t::{linorder,plus,zero}) State"
  assumes "\<forall>(e, b, d) \<in> set xs. b \<noteq> [] \<and> payload_duration e b = Some d"
  shows "starts (effects (run s (audio_events sess xs)))
           = starts (effects s) @ schedule (nextStartTimeRef s) (arrivals xs)"
  using assms
proof (induction xs arbitrary: s)
  case Nil
  then show ?case by (simp add: run_def audio_events_def arrivals_def)
next
  case (Cons x xs)
  obtain e b d where x: "x = (e, b, d)" by (cases x)
  with Cons.prems have ok: "b \<noteq> []" "payload_duration e b = Some d" by auto
  have "toolCall_ok (audio_message b)" "inlineData (audio_message b) = Some b"
    "\<not> interrupted (audio_message b)"
    by (simp_all add: audio_message_def no_parts_def toolCall_ok_def)
  with onmessage_schedules [of "audio_message b" b e d sess s] ok
  obtain s' where s': "onmessage e sess (audio_message b) s = Inr s'"
    "starts (effects s') = starts (effects s) @ [max (nextStartTimeRef s) (currentTime e)]"
    "nextStartTimeRef s' = max (nextStartTimeRef s) (currentTime e) + d"
    by auto
  have "run s (audio_events sess (x # xs)) = run s' (audio_events sess xs)"
    using s'(1) x by (simp add: audio_events_def run_Cons)
  moreover have "starts (effects (run s' (audio_events sess xs)))
      = starts (effects s') @ schedule (nextStartTimeRef s') (arrivals xs)"
    using Cons.IH [of s'] Cons.prems by simp
  ultimately show ?case
    using s' x by (simp add: arrivals_def)
qed

subsection \<open>The active set under the handler\<close>

lemma onmessage_audio_returns:
  "audio_ok e msg \<Longrightarrow> \<exists>s'. onmessage_audio e msg s = Inr s'"
  by (auto simp: audio_ok_def onmessage_audio_def payload_duration_def Let_def
      split: option.splits)

lemma onmessage_audio_sources:
  "onmessage_audio e msg s = Inr s' \<Longrightarrow> set (sourcesRef s) \<subseteq> set (sourcesRef s')"
  by (auto simp: onmessage_audio_def Let_def addSource_def flushUserInput_def appendChat_def
      split: option.splits if_splits)

lemma transcription_sources:
  "sourcesRef (onmessage_turnComplete e msg
      (onmessage_outputTranscription msg (onmessage_inputTranscription msg s))) = sourcesRef s"
  by (simp add: onmessage_turnComplete_def onmessage_outputTranscription_def
      onmessage_inputTranscription_def flushUserInput_def flushModelOutput_def appendChat_def
      split: option.splits)

lemma onmessage_interrupted_post:
  "interrupted msg \<Longrightarrow>
     sourcesRef (onmessage_interrupted e msg s) = []
     \<and> nextStartTimeRef (onmessage_interrupted e msg s) = 0
     \<and> effects (onmessage_interrupted e msg s) = effects s @ map SourceStop (sourcesRef s)
     \<and> currentOutputRef (onmessage_interrupted e msg s) = []"
  by (simp add: onmessage_interrupted_def flushInterrupted_def stopSources_def addLog_def
      appendChat_def Let_def)

lemma stopSources_idle:
  "sourcesRef s = [] \<Longrightarrow> nextStartTimeRef s = 0 \<Longrightarrow> stopSources s = s"
  by (simp add: stopSources_def)

lemma stopEverything_sources:
  "sourcesRef (stopEverything e s) = [] \<and> nextStartTimeRef (stopEverything e s) = 0
   \<and> (\<forall>h \<in> set (sourcesRef s). SourceStop h \<in> set (effects (stopEverything e s)))"
  by (auto simp: stopEverything_def clearTranscript_def closeSession_def stopSources_def
      disconnectInputSource_def disconnectScriptProcessor_def clearFrameInterval_def addLog_def
      split: option.splits)

lemma onmessage_interrupted_message:
  "onmessage e sess interrupted_message s = Inr (onmessage_interrupted e interrupted_message s)"
  by (simp add: onmessage_def onmessage_toolCall_def onmessage_audio_def
      onmessage_turnComplete_def onmessage_outputTranscription_def
      onmessage_inputTranscription_def interrupted_message_def no_parts_def)

lemma interrupted_again:
  assumes "sourcesRef s = []" "nextStartTimeRef s = 0" "currentOutputRef s = []"
  shows "onmessage e sess interrupted_message s = Inr (addLog e ''Model interrupted'' s)"
proof -
  let ?l = "addLog e ''Model interrupted'' s"
  have "stopSources ?l = ?l"
    by (rule stopSources_idle) (simp_all add: addLog_def assms)
  moreover have "flushInterrupted e ?l = ?l"
    by (simp add: flushInterrupted_def addLog_def assms)
  moreover have "interrupted interrupted_message"
    by (simp add: interrupted_message_def no_parts_def)
  ultimately show ?thesis
    by (simp add: onmessage_interrupted_message onmessage_interrupted_def)
qed

subsection \<open>The transcripts under the handler\<close>

lemma run_append: "run s (xs @ ys) = run (run s xs) ys"
  by (simp add: run_def)

lemma run_Nil: "run s [] = s"
  by (simp add: run_def)

lemma onmessage_input_delta:
  "onmessage e sess (input_delta txt) s = Inr (onmessage_inputTranscription (input_delta txt) s)"
  by (simp add: onmessage_def onmessage_toolCall_def onmessage_audio_def
      onmessage_turnComplete_def onmessage_outputTranscription_def
      onmessage_interrupted_def input_delta_def no_parts_def)

lemma onmessage_output_delta:
  "onmessage e sess (output_delta txt) s = Inr (onmessage_outputTranscription (output_delta txt) s)"
  by (simp add: onmessage_def onmessage_toolCall_def onmessage_audio_def
      onmessage_turnComplete_def onmessage_inputTranscription_def
      onmessage_interrupted_def output_delta_def no_parts_def)

lemma onmessage_turnComplete_message:
  "onmessage e sess turnComplete_message s = Inr (onmessage_turnComplete e turnComplete_message s)"
  by (simp add: onmessage_def onmessage_toolCall_def onmessage_audio_def
      onmessage_inputTranscription_def onmessage_outputTranscription_def
      onmessage_interrupted_def turnComplete_message_def no_parts_def)

lemma onmessage_audio_message:
  "onmessage e sess (audio_message b) s = (case onmessage_audio e (audio_message b) s of
      Inl err \<Rightarrow> Inl err | Inr s' \<Rightarrow> Inr s')"
  by (simp add: onmessage_def onmessage_toolCall_def
      onmessage_inputTranscription_def onmessage_outputTranscription_def
      onmessage_turnComplete_def onmessage_interrupted_def audio_message_def no_parts_def
      split: sum.splits)

lemma input_step_transcript:
  "chatHistory (onmessage_inputTranscription (input_delta txt) s) = chatHistory s
   \<and> currentInputRef (onmessage_inputTranscription (input_delta txt) s) = currentInputRef s @ txt
   \<and> currentOutputRef (onmessage_inputTranscription (input_delta txt) s) = currentOutputRef s"
  by (simp add: onmessage_inputTranscription_def input_delta_def no_parts_def)

lemma output_step_transcript:
  "chatHistory (onmessage_outputTranscription (output_delta txt) s) = chatHistory s
   \<and> currentInputRef (onmessage_outputTranscription (output_delta txt) s) = currentInputRef s
   \<and> currentOutputRef (onmessage_outputTranscription (output_delta txt) s) = currentOutputRef s @ txt"
  by (simp add: onmessage_outputTranscription_def output_delta_def no_parts_def)

lemma input_events_transcript:
  "chatHistory (run s (input_events sess us)) = chatHistory s
   \<and> currentInputRef (run s (input_events sess us)) = currentInputRef s @ concat (map snd us)
   \<and> currentOutputRef (run s (input_events sess us)) = currentOutputRef s"
proof (induction us arbitrary: s)
  case Nil
  then show ?case by (simp add: input_events_def run_Nil)
next
  case (Cons u us)
  obtain e d where u: "u = (e, d)" by (cases u)
  have "run s (input_events sess (u # us))
      = run (onmessage_inputTranscription (input_delta d) s) (input_events sess us)"
    by (simp add: u input_events_def run_Cons onmessage_input_delta)
  with Cons.IH [of "onmessage_inputTranscription (input_delta d) s"]
  show ?case by (simp add: u input_step_transcript)
qed

lemma output_events_transcript:
  "chatHistory (run s (output_events sess ms)) = chatHistory s
   \<and> currentInputRef (run s (output_events sess ms)) = currentInputRef s
   \<and> currentOutputRef (run s (output_events sess ms)) = currentOutputRef s @ concat (map snd ms)"
proof (induction ms arbitrary: s)
  case Nil
  then show ?case by (simp add: output_events_def run_Nil)
next
  case (Cons u ms)
  obtain e d where u: "u = (e, d)" by (cases u)
  have "run s (output_events sess (u # ms))
      = run (onmessage_outputTranscription (output_delta d) s) (output_events sess ms)"
    by (simp add: u output_events_def run_Cons onmessage_output_delta)
  with Cons.IH [of "onmessage_outputTranscription (output_delta d) s"]
  show ?case by (simp add: u output_step_transcript)
qed

lemma turnComplete_transcript:
  "turnComplete msg \<Longrightarrow>
   chatHistory (onmessage_turnComplete e msg s) = chatHistory s
       @ (if currentOutputRef s = [] then []
          else [chatMessage e ''-model'' Model (currentOutputRef s)])
       @ (if currentInputRef s = [] then []
          else [chatMessage e ''-user'' User (currentInputRef s)])
   \<and> currentInputRef (onmessage_turnComplete e msg s) = []
   \<and> currentOutputRef (onmessage_turnComplete e msg s) = []"
  by (simp add: onmessage_turnComplete_def flushUserInput_def flushModelOutput_def appendChat_def)

lemma audio_transcript:
  assumes "inlineData msg = Some b" "b \<noteq> []" "payload_duration e b = Some d"
  shows "\<exists>s'. onmessage_audio e msg s = Inr s'
     \<and> chatHistory s' = chatHistory s
          @ (if currentInputRef s = [] then []
             else [chatMessage e ''-user'' User (currentInputRef s)])
     \<and> currentInputRef s' = [] \<and> currentOutputRef s' = currentOutputRef s"
  using assms
  by (auto simp: onmessage_audio_def payload_duration_def Let_def addSource_def
      flushUserInput_def appendChat_def split: option.splits)

lemma audio_message_transcript:
  assumes "b \<noteq> []" "payload_duration e b = Some d"
  shows "\<exists>s'. onmessage e sess (audio_message b) s = Inr s'
     \<and> chatHistory s' = chatHistory s
          @ (if currentInputRef s = [] then []
             else [chatMessage e ''-user'' User (currentInputRef s)])
     \<and> currentInputRef s' = [] \<and> currentOutputRef s' = currentOutputRef s"
proof -
  have "inlineData (audio_message b) = Some b"
    by (simp add: audio_message_def no_parts_def)
  from audio_transcript [OF this assms, of s]
  show ?thesis by (auto simp: onmessage_audio_message)
qed

subsection \<open>The transcript of an interrupted turn\<close>




subsection \<open>A message that carries a tool-call batch only\<close>

lemma onmessage_toolCall_message:
  "onmessage e sess (toolCall_message fcs) s
     = onmessage_toolCall e sess (toolCall_message fcs) s"
  by (simp add: onmessage_def onmessage_audio_def onmessage_inputTranscription_def
      onmessage_outputTranscription_def onmessage_turnComplete_def onmessage_interrupted_def
      toolCall_message_def no_parts_def split: sum.splits)

subsection \<open>The state after the teardown\<close>

lemma stopEverything_fields:
  "connectionState (stopEverything e s) = DISCONNECTED
   \<and> frameIntervalRef (stopEverything e s) = None
   \<and> scriptProcessorRef (stopEverything e s) = None
   \<and> inputSourceRef (stopEverything e s) = None
   \<and> sessionPromiseRef (stopEverything e s) = None
   \<and> sourcesRef (stopEverything e s) = []
   \<and> nextStartTimeRef (stopEverything e s) = 0
   \<and> currentInputRef (stopEverything e s) = []
   \<and> currentOutputRef (stopEverything e s) = []
   \<and> currentInput (stopEverything e s) = []
   \<and> currentOutput (stopEverything e s) = []
   \<and> errorMsg (stopEverything e s) = errorMsg s"
  by (simp add: stopEverything_def clearTranscript_def closeSession_def stopSources_def
      disconnectInputSource_def disconnectScriptProcessor_def clearFrameInterval_def addLog_def
      split: option.splits)

lemma stopEverything_effects:
  "effects (stopEverything e s) = effects s
     @ (case frameIntervalRef s of None \<Rightarrow> [] | Some i \<Rightarrow> [ClearInterval i])
     @ (case scriptProcessorRef s of None \<Rightarrow> [] | Some n \<Rightarrow> [NodeDisconnect n])
     @ (case inputSourceRef s of None \<Rightarrow> [] | Some n \<Rightarrow> [NodeDisconnect n])
     @ map SourceStop (sourcesRef s)
     @ (case sessionPromiseRef s of None \<Rightarrow> [] | Some p \<Rightarrow> [SessionClose p])"
  by (simp add: stopEverything_def clearTranscript_def closeSession_def stopSources_def
      disconnectInputSource_def disconnectScriptProcessor_def clearFrameInterval_def addLog_def
      split: option.splits)

lemma stopEverything_idle:
  assumes "connectionState s = DISCONNECTED" "frameIntervalRef s = None"
    "scriptProcessorRef s = None" "inputSourceRef s = None" "sessionPromiseRef s = None"
    "sourcesRef s = []" "nextStartTimeRef s = 0" "currentInputRef s = []"
    "currentOutputRef s = []" "currentInput s = []" "currentOutput s = []"
  shows "stopEverything e s = addLog e ''Stopping session...'' s"
  using assms
  by (cases s)
     (simp add: stopEverything_def clearTranscript_def closeSession_def stopSources_def
      disconnectInputSource_def disconnectScriptProcessor_def clearFrameInterval_def addLog_def)

subsection \<open>What leaves the emotion and the connection state as they are\<close>

lemma onmessage_audio_emotion:
  "currentEmotion (state_after (onmessage_audio e msg s)) = currentEmotion s"
  by (simp add: onmessage_audio_def Let_def addSource_def flushUserInput_def appendChat_def
      split: option.splits)

lemma later_parts_emotion:
  "currentEmotion (onmessage_interrupted e msg
      (onmessage_turnComplete e msg
        (onmessage_outputTranscription msg (onmessage_inputTranscription msg s))))
     = currentEmotion s"
  by (simp add: onmessage_interrupted_def onmessage_turnComplete_def
      onmessage_outputTranscription_def onmessage_inputTranscription_def
      flushInterrupted_def flushUserInput_def flushModelOutput_def stopSources_def
      appendChat_def addLog_def Let_def split: option.splits)

lemma onmessage_emotion:
  "currentEmotion (state_after (onmessage e sess msg s))
     = currentEmotion (state_after (onmessage_toolCall e sess msg s))"
proof (cases "onmessage_toolCall e sess msg s")
  case (Inl a)
  then show ?thesis by (simp add: onmessage_def)
next
  case s1: (Inr s1)
  show ?thesis
  proof (cases "onmessage_audio e msg s1")
    case (Inl a)
    obtain err s' where a: "a = (err, s')" by (cases a)
    with Inl s1 onmessage_audio_emotion [of e msg s1]
    show ?thesis by (simp add: onmessage_def)
  next
    case (Inr s2)
    with s1 onmessage_audio_emotion [of e msg s1]
    show ?thesis by (simp add: onmessage_def later_parts_emotion)
  qed
qed

lemma message_emotion:
  assumes "toolCall msg = Some tc" "functionCalls tc = Some fcs" "list_all call_ok fcs"
  shows "currentEmotion (state_after (onmessage e sess msg s)) =
     (if filter known_call fcs = [] then currentEmotion s
      else emotion_arg (last (filter known_call fcs)))"
proof -
  from onmessage_toolCall_result [OF assms, of e sess s]
  obtain s1 where "onmessage_toolCall e sess msg s = Inr s1"
    "currentEmotion s1 =
       (if filter known_call fcs = [] then currentEmotion s
        else emotion_arg (last (filter known_call fcs)))"
    by blast
  then show ?thesis by (simp add: onmessage_emotion)
qed

lemma stopEverything_emotion: "currentEmotion (stopEverything e s) = currentEmotion s"
  by (simp add: stopEverything_def clearTranscript_def closeSession_def stopSources_def
      disconnectInputSource_def disconnectScriptProcessor_def clearFrameInterval_def addLog_def
      split: option.splits)

lemma connectToGemini_emotion: "currentEmotion (connectToGemini e conn s) = currentEmotion s"
  by (simp add: connectToGemini_def addLog_def Let_def split: sum.splits)

lemma step_emotion:
  "\<not> sets_emotion ev \<Longrightarrow> currentEmotion (step s ev) = currentEmotion s"
proof (cases ev)
  case (Message e sess msg)
  assume "\<not> sets_emotion ev"
  with Message onmessage_toolCall_emotion [of e sess msg s] show ?thesis
    by (auto simp: onmessage_emotion filter_empty_conv split: option.splits)
qed (simp_all add: toggleConnection_def stopEverything_emotion connectToGemini_emotion
      onopen_def onclose_def onerror_def onended_def addLog_def Let_def split: option.splits)

lemma step_declared:
  assumes "calls_declared ev" "declared_emotion (currentEmotion s)"
  shows "declared_emotion (currentEmotion (step s ev))"
proof (cases ev)
  case (Message e sess msg)
  from onmessage_toolCall_emotion [of e sess msg s]
  show ?thesis
  proof
    assume "currentEmotion (state_after (onmessage_toolCall e sess msg s)) = currentEmotion s"
    with Message assms(2) show ?thesis by (simp add: onmessage_emotion)
  next
    assume "\<exists>tc fcs. toolCall msg = Some tc \<and> functionCalls tc = Some fcs
        \<and> currentEmotion (state_after (onmessage_toolCall e sess msg s))
             \<in> emotion_arg ` set (filter known_call fcs)"
    then obtain tc fcs where t: "toolCall msg = Some tc" "functionCalls tc = Some fcs"
      "currentEmotion (state_after (onmessage_toolCall e sess msg s))
         \<in> emotion_arg ` set (filter known_call fcs)"
      by blast
    from assms(1) Message t(1,2)
    have "\<forall>x \<in> emotion_arg ` set (filter known_call fcs). declared_emotion x"
      by (simp add: list_all_iff)
    with t(3) have "declared_emotion (currentEmotion (state_after (onmessage_toolCall e sess msg s)))"
      by blast
    with Message show ?thesis by (simp add: onmessage_emotion)
  qed
qed (use assms(2) in \<open>simp_all add: toggleConnection_def stopEverything_emotion
      connectToGemini_emotion onopen_def onclose_def onerror_def onended_def addLog_def Let_def
      split: option.splits\<close>)

lemma run_declared:
  "list_all calls_declared evs \<Longrightarrow> declared_emotion (currentEmotion s)
     \<Longrightarrow> declared_emotion (currentEmotion (run s evs))"
proof (induction evs arbitrary: s)
  case Nil
  then show ?case by (simp add: run_Nil)
next
  case (Cons ev evs)
  from Cons.prems have "declared_emotion (currentEmotion (step s ev))"
    by (simp add: step_declared)
  with Cons show ?case by (simp add: run_Cons)
qed

lemma onmessage_connection:
  "connectionState (state_after (onmessage e sess msg s)) = connectionState s
   \<and> mediaStream (state_after (onmessage e sess msg s)) = mediaStream s"
proof -
  note tc = onmessage_toolCall_keeps [of e sess msg s]
  have au: "connectionState (state_after (onmessage_audio e msg s0)) = connectionState s0
      \<and> mediaStream (state_after (onmessage_audio e msg s0)) = mediaStream s0"
    for s0 :: "'a State"
    by (simp add: onmessage_audio_def Let_def addSource_def flushUserInput_def appendChat_def
        split: option.splits)
  have la: "connectionState (onmessage_interrupted e msg
      (onmessage_turnComplete e msg
        (onmessage_outputTranscription msg (onmessage_inputTranscription msg s0))))
     = connectionState s0
     \<and> mediaStream (onmessage_interrupted e msg
      (onmessage_turnComplete e msg
        (onmessage_outputTranscription msg (onmessage_inputTranscription msg s0))))
     = mediaStream s0" for s0 :: "'a State"
    by (simp add: onmessage_interrupted_def onmessage_turnComplete_def
      onmessage_outputTranscription_def onmessage_inputTranscription_def
      flushInterrupted_def flushUserInput_def flushModelOutput_def stopSources_def
      appendChat_def addLog_def Let_def split: option.splits)
  show ?thesis
  proof (cases "onmessage_toolCall e sess msg s")
    case (Inl a)
    with tc show ?thesis by (simp add: onmessage_def)
  next
    case s1: (Inr s1)
    show ?thesis
    proof (cases "onmessage_audio e msg s1")
      case (Inl a)
      obtain err s' where a: "a = (err, s')" by (cases a)
      with Inl s1 au [of s1] tc show ?thesis by (simp add: onmessage_def)
    next
      case (Inr s2)
      with s1 au [of s1] tc la [of s2] show ?thesis by (simp add: onmessage_def)
    qed
  qed
qed

lemma stopEverything_connection:
  "connectionState (stopEverything e s) = DISCONNECTED
   \<and> mediaStream (stopEverything e s) = mediaStream s"
  by (simp add: stopEverything_def clearTranscript_def closeSession_def stopSources_def
      disconnectInputSource_def disconnectScriptProcessor_def clearFrameInterval_def addLog_def
      split: option.splits)

section \<open>Playback scheduling\<close>

text \<open>
  C1. A message whose audio payload decodes to a buffer of duration \<open>d\<close> (and whose
  tool-call part, if it has one, is well formed) is handled to the end, starts
  exactly one source, at the maximum of the cursor
  \<^verbatim>\<open>nextStartTimeRef\<close> and the audio context's current time, and leaves the cursor
  at that time plus \<open>d\<close> (at 0 when the same message also carries an interruption).
  Hence, for a sequence of audio messages that all decode, the start times are as
  many as the messages, the first is the maximum of the cursor and the current time,
  and whenever a message is handled no later than the scheduled end of the one before
  it, its start time is the start time of the one before plus that one's duration:
  no gap and no overlap.
\<close>

theorem gapless_playback_scheduling:
  fixes s :: "('t::{linorder,plus,zero}) State"
  shows
  "(toolCall_ok msg \<and> inlineData msg = Some b \<and> b \<noteq> []
      \<and> payload_duration e b = Some d \<longrightarrow>
      (\<exists>s'. onmessage e sess msg s = Inr s'
         \<and> starts (effects s') = starts (effects s) @ [max (nextStartTimeRef s) (currentTime e)]
         \<and> nextStartTimeRef s' =
             (if interrupted msg then 0 else max (nextStartTimeRef s) (currentTime e) + d)))
   \<and> ((\<forall>(e, b, d) \<in> set xs. b \<noteq> [] \<and> payload_duration e b = Some d) \<longrightarrow>
      (\<exists>sts. starts (effects (run s (audio_events sess xs))) = starts (effects s) @ sts
         \<and> length sts = length xs
         \<and> (xs \<noteq> [] \<longrightarrow> sts ! 0 = max (nextStartTimeRef s) (currentTime (fst (xs ! 0))))
         \<and> (\<forall>i. Suc i < length xs
               \<and> currentTime (fst (xs ! Suc i)) \<le> sts ! i + snd (snd (xs ! i))
               \<longrightarrow> sts ! Suc i = sts ! i + snd (snd (xs ! i)))))"
proof (intro conjI impI)
  assume "toolCall_ok msg \<and> inlineData msg = Some b \<and> b \<noteq> []
      \<and> payload_duration e b = Some d"
  then show "\<exists>s'. onmessage e sess msg s = Inr s'
         \<and> starts (effects s') = starts (effects s) @ [max (nextStartTimeRef s) (currentTime e)]
         \<and> nextStartTimeRef s' =
             (if interrupted msg then 0 else max (nextStartTimeRef s) (currentTime e) + d)"
    using onmessage_schedules [of msg b e d sess s] by blast
next
  assume ok: "\<forall>(e, b, d) \<in> set xs. b \<noteq> [] \<and> payload_duration e b = Some d"
  let ?a = "arrivals xs"
  let ?sts = "schedule (nextStartTimeRef s) ?a"
  have len: "length ?a = length xs" by (simp add: arrivals_def)
  have nth: "i < length xs \<Longrightarrow> ?a ! i = (currentTime (fst (xs ! i)), snd (snd (xs ! i)))" for i
    by (simp add: arrivals_def split_beta)
  have "starts (effects (run s (audio_events sess xs))) = starts (effects s) @ ?sts"
    by (rule run_audio_events [OF ok])
  moreover have "length ?sts = length xs"
    by (simp add: schedule_length len)
  moreover have "xs \<noteq> [] \<longrightarrow> ?sts ! 0 = max (nextStartTimeRef s) (currentTime (fst (xs ! 0)))"
  proof
    assume ne: "xs \<noteq> []"
    then have "?a \<noteq> []" by (simp add: arrivals_def)
    from schedule_first [OF this] nth [of 0] ne
    show "?sts ! 0 = max (nextStartTimeRef s) (currentTime (fst (xs ! 0)))" by simp
  qed
  moreover have "\<forall>i. Suc i < length xs
               \<and> currentTime (fst (xs ! Suc i)) \<le> ?sts ! i + snd (snd (xs ! i))
               \<longrightarrow> ?sts ! Suc i = ?sts ! i + snd (snd (xs ! i))"
  proof (intro allI impI)
    fix i
    assume h: "Suc i < length xs
               \<and> currentTime (fst (xs ! Suc i)) \<le> ?sts ! i + snd (snd (xs ! i))"
    then have "Suc i < length ?a" "fst (?a ! Suc i) \<le> ?sts ! i + snd (?a ! i)"
      using nth [of i] nth [of "Suc i"] len by simp_all
    from schedule_gapless [OF this] nth [of i] h
    show "?sts ! Suc i = ?sts ! i + snd (snd (xs ! i))" by simp
  qed
  ultimately show "\<exists>sts. starts (effects (run s (audio_events sess xs))) = starts (effects s) @ sts
         \<and> length sts = length xs
         \<and> (xs \<noteq> [] \<longrightarrow> sts ! 0 = max (nextStartTimeRef s) (currentTime (fst (xs ! 0))))
         \<and> (\<forall>i. Suc i < length xs
               \<and> currentTime (fst (xs ! Suc i)) \<le> sts ! i + snd (snd (xs ! i))
               \<longrightarrow> sts ! Suc i = sts ! i + snd (snd (xs ! i)))"
    by blast
qed

theorem gapless_playback_scheduling_witness:
  "payload_duration (demo_env 5) ''ab'' = Some 2
   \<and> payload_duration (demo_env 6) ''abc'' = Some 3
   \<and> (\<exists>s'. onmessage (demo_env 5) 0 (audio_message ''ab'') (initial :: int State) = Inr s'
         \<and> starts (effects s') = [5] \<and> nextStartTimeRef s' = 7)
   \<and> starts (effects (run (initial :: int State)
        (audio_events 0 [(demo_env 5, ''ab'', 2), (demo_env 6, ''abc'', 3)]))) = [5, 7]"
proof -
  let ?xs = "[(demo_env 5, ''ab'', 2), (demo_env 6, ''abc'', 3 :: int)]"
  have d1: "payload_duration (demo_env 5) ''ab'' = Some 2"
    and d2: "payload_duration (demo_env 6) ''abc'' = Some 3"
    by (simp_all add: payload_duration_def demo_env_def)
  then have ok: "\<forall>(e, b, d) \<in> set ?xs. b \<noteq> [] \<and> payload_duration e b = Some d"
    by simp
  from gapless_playback_scheduling [where msg = "audio_message ''ab''" and b = "''ab''"
      and e = "demo_env 5" and d = 2 and sess = 0 and s = "initial :: int State"
      and xs = ?xs] ok
  obtain sts where sts:
    "starts (effects (run (initial :: int State) (audio_events 0 ?xs)))
       = starts (effects (initial :: int State)) @ sts"
    "length sts = length ?xs"
    "sts ! 0 = max (nextStartTimeRef (initial :: int State)) (currentTime (fst (?xs ! 0)))"
    "\<forall>i. Suc i < length ?xs
        \<and> currentTime (fst (?xs ! Suc i)) \<le> sts ! i + snd (snd (?xs ! i))
        \<longrightarrow> sts ! Suc i = sts ! i + snd (snd (?xs ! i))"
    by auto
  from sts(3) have s0: "sts ! 0 = 5"
    by (simp add: initial_def demo_env_def)
  from sts(4) have "Suc 0 < length ?xs
        \<and> currentTime (fst (?xs ! Suc 0)) \<le> sts ! 0 + snd (snd (?xs ! 0))
        \<longrightarrow> sts ! Suc 0 = sts ! 0 + snd (snd (?xs ! 0))"
    by (rule spec)
  with s0 have s1: "sts ! Suc 0 = 7"
    by (simp add: demo_env_def)
  from sts(2) obtain a b where ab: "sts = [a, b]"
    by (cases sts; cases "tl sts"; cases "tl (tl sts)") auto
  with s0 s1 have "sts = [5, 7]" by simp
  with sts(1) have run: "starts (effects (run (initial :: int State) (audio_events 0 ?xs))) = [5, 7]"
    by (simp add: initial_def)
  have msg: "toolCall_ok (audio_message ''ab'')" "inlineData (audio_message ''ab'') = Some ''ab''"
    "\<not> interrupted (audio_message ''ab'')"
    by (simp_all add: audio_message_def no_parts_def toolCall_ok_def)
  have ini: "starts (effects (initial :: int State)) = []" "nextStartTimeRef (initial :: int State) = 0"
    by (simp_all add: initial_def)
  have now: "currentTime (demo_env 5) = 5"
    by (simp add: demo_env_def)
  from gapless_playback_scheduling [where msg = "audio_message ''ab''" and b = "''ab''"
      and e = "demo_env 5" and d = 2 and sess = 0 and s = "initial :: int State"
      and xs = ?xs] msg d1
  have "\<exists>s'. onmessage (demo_env 5) 0 (audio_message ''ab'') (initial :: int State) = Inr s'
         \<and> starts (effects s') = [5] \<and> nextStartTimeRef s' = 7"
    by (simp add: ini now)
  with run d1 d2 show ?thesis by blast
qed

section \<open>Interruption of the playback\<close>

text \<open>
  C2. A message that carries an interruption (and whose tool-call part, if it has
  one, is well formed and whose audio part, if it has one, decodes) is handled to
  the end; afterwards \<^verbatim>\<open>stop()\<close> has been called on every
  source that was in the active set, the set is empty and \<^verbatim>\<open>nextStartTimeRef\<close> is 0;
  an interruption handled right after it is handled to the end too and changes
  nothing but the debug log, to which it adds its line. The teardown
  \<^verbatim>\<open>stopEverything\<close> has the same effect on the sources, the set and the cursor. An
  interruption handled when the active set is empty is handled to the end, calls
  nothing, and leaves the set empty and the cursor at 0.
\<close>

theorem interrupt_postcondition_idempotent:
  fixes s :: "('t::{linorder,plus,zero}) State"
  shows
  "(interrupted msg \<and> toolCall_ok msg \<and> audio_ok e msg \<longrightarrow>
      (\<exists>s1. onmessage e sess msg s = Inr s1
         \<and> sourcesRef s1 = [] \<and> nextStartTimeRef s1 = 0
         \<and> (\<forall>h \<in> set (sourcesRef s). SourceStop h \<in> set (effects s1))
         \<and> onmessage e' sess interrupted_message s1 = Inr (addLog e' ''Model interrupted'' s1)))
   \<and> (sourcesRef (stopEverything e s) = [] \<and> nextStartTimeRef (stopEverything e s) = 0
      \<and> (\<forall>h \<in> set (sourcesRef s). SourceStop h \<in> set (effects (stopEverything e s))))
   \<and> (sourcesRef s = [] \<longrightarrow>
      (\<exists>s1. onmessage e sess interrupted_message s = Inr s1
         \<and> sourcesRef s1 = [] \<and> nextStartTimeRef s1 = 0 \<and> effects s1 = effects s))"
proof (intro conjI impI)
  assume h: "interrupted msg \<and> toolCall_ok msg \<and> audio_ok e msg"
  from h onmessage_toolCall_returns [of msg e sess s]
  obtain s0 where s0: "onmessage_toolCall e sess msg s = Inr s0" by blast
  with onmessage_toolCall_keeps [of e sess msg s]
  have k: "sourcesRef s0 = sourcesRef s" by simp
  from h onmessage_audio_returns [of e msg s0]
  obtain s2 where s2: "onmessage_audio e msg s0 = Inr s2" by blast
  let ?s3 = "onmessage_turnComplete e msg
      (onmessage_outputTranscription msg (onmessage_inputTranscription msg s2))"
  let ?s1 = "onmessage_interrupted e msg ?s3"
  have ret: "onmessage e sess msg s = Inr ?s1"
    using s0 s2 by (simp add: onmessage_def)
  have sub: "set (sourcesRef s) \<subseteq> set (sourcesRef ?s3)"
    using onmessage_audio_sources [OF s2] k
    by (simp add: transcription_sources)
  from h have post: "sourcesRef ?s1 = []" "nextStartTimeRef ?s1 = 0"
      "effects ?s1 = effects ?s3 @ map SourceStop (sourcesRef ?s3)"
      "currentOutputRef ?s1 = []"
    using onmessage_interrupted_post [of msg e ?s3] by simp_all
  have stopped: "\<forall>h \<in> set (sourcesRef s). SourceStop h \<in> set (effects ?s1)"
    using sub post(3) by auto
  have again: "onmessage e' sess interrupted_message ?s1 = Inr (addLog e' ''Model interrupted'' ?s1)"
    by (rule interrupted_again) (rule post)+
  from ret post(1,2) stopped again
  show "\<exists>s1. onmessage e sess msg s = Inr s1
         \<and> sourcesRef s1 = [] \<and> nextStartTimeRef s1 = 0
         \<and> (\<forall>h \<in> set (sourcesRef s). SourceStop h \<in> set (effects s1))
         \<and> onmessage e' sess interrupted_message s1 = Inr (addLog e' ''Model interrupted'' s1)"
    by blast
next
  show "sourcesRef (stopEverything e s) = []" "nextStartTimeRef (stopEverything e s) = 0"
    "\<forall>h \<in> set (sourcesRef s). SourceStop h \<in> set (effects (stopEverything e s))"
    using stopEverything_sources [of e s] by simp_all
next
  assume empty: "sourcesRef s = []"
  have i: "interrupted interrupted_message"
    by (simp add: interrupted_message_def no_parts_def)
  from onmessage_interrupted_post [OF i, of e s] empty
  show "\<exists>s1. onmessage e sess interrupted_message s = Inr s1
         \<and> sourcesRef s1 = [] \<and> nextStartTimeRef s1 = 0 \<and> effects s1 = effects s"
    by (simp add: onmessage_interrupted_message)
qed


theorem interrupt_postcondition_idempotent_witness:
  "(\<exists>s1. onmessage (demo_env 5) 0 interrupted_message
            ((initial :: int State)\<lparr>nextStartTimeRef := 9, sourcesRef := [3, 4]\<rparr>) = Inr s1
       \<and> sourcesRef s1 = [] \<and> nextStartTimeRef s1 = 0
       \<and> SourceStop 3 \<in> set (effects s1) \<and> SourceStop 4 \<in> set (effects s1)
       \<and> onmessage (demo_env 6) 0 interrupted_message s1
            = Inr (addLog (demo_env 6) ''Model interrupted'' s1))
   \<and> (\<exists>s1. onmessage (demo_env 5) 0 interrupted_message (initial :: int State) = Inr s1
       \<and> sourcesRef s1 = [] \<and> nextStartTimeRef s1 = 0 \<and> effects s1 = [])"
proof -
  have m: "interrupted interrupted_message" "toolCall_ok interrupted_message"
    "audio_ok (demo_env 5) interrupted_message"
    by (simp_all add: interrupted_message_def no_parts_def audio_ok_def toolCall_ok_def)
  have i: "sourcesRef (initial :: int State) = []" "effects (initial :: int State) = []"
    by (simp_all add: initial_def)
  from interrupt_postcondition_idempotent [where msg = interrupted_message
      and e = "demo_env 5" and e' = "demo_env 6" and sess = 0
      and s = "(initial :: int State)\<lparr>nextStartTimeRef := 9, sourcesRef := [3, 4]\<rparr>"] m
  have a: "\<exists>s1. onmessage (demo_env 5) 0 interrupted_message
            ((initial :: int State)\<lparr>nextStartTimeRef := 9, sourcesRef := [3, 4]\<rparr>) = Inr s1
       \<and> sourcesRef s1 = [] \<and> nextStartTimeRef s1 = 0
       \<and> SourceStop 3 \<in> set (effects s1) \<and> SourceStop 4 \<in> set (effects s1)
       \<and> onmessage (demo_env 6) 0 interrupted_message s1
            = Inr (addLog (demo_env 6) ''Model interrupted'' s1)"
    by simp
  from interrupt_postcondition_idempotent [where msg = interrupted_message
      and e = "demo_env 5" and e' = "demo_env 6" and sess = 0
      and s = "initial :: int State"] i
  have b: "\<exists>s1. onmessage (demo_env 5) 0 interrupted_message (initial :: int State) = Inr s1
       \<and> sourcesRef s1 = [] \<and> nextStartTimeRef s1 = 0 \<and> effects s1 = []"
    by simp
  from a b show ?thesis by blast
qed

section \<open>The transcript\<close>

text \<open>
  C3. On a turn-complete signal the model transcript, when it is not empty, is
  committed first, as a message of role \<^verbatim>\<open>model\<close>, and the user transcript, when it is
  not empty, second, as a message of role \<^verbatim>\<open>user\<close>; both transcripts are empty
  afterwards. A message that carries the turn-complete signal only is handled to the
  end and does exactly that. From the state at mount, the user deltas \<^verbatim>\<open>"Hi "\<close> and
  \<^verbatim>\<open>"there"\<close> followed by a turn-complete signal leave a history of exactly one
  message, of role \<^verbatim>\<open>user\<close> and text \<^verbatim>\<open>"Hi there"\<close>, and an empty user transcript.
\<close>

theorem turnComplete_commit_order:
  fixes s :: "('t::{linorder,plus,zero}) State" and e1 :: "('u::{linorder,plus,zero}) env"
  shows
  "(turnComplete msg \<longrightarrow>
      chatHistory (onmessage_turnComplete e msg s) = chatHistory s
          @ (if currentOutputRef s = [] then []
             else [chatMessage e ''-model'' Model (currentOutputRef s)])
          @ (if currentInputRef s = [] then []
             else [chatMessage e ''-user'' User (currentInputRef s)])
      \<and> currentInputRef (onmessage_turnComplete e msg s) = []
      \<and> currentOutputRef (onmessage_turnComplete e msg s) = [])
   \<and> onmessage e sess turnComplete_message s
        = Inr (onmessage_turnComplete e turnComplete_message s)
   \<and> turnComplete turnComplete_message
   \<and> chatHistory (run initial
        [Message e1 sess (input_delta ''Hi ''), Message e2 sess (input_delta ''there''),
         Message e3 sess turnComplete_message])
       = [\<lparr> msg_id = show_nat (dateNow e3) @ ''-user'', msg_role = User,
            msg_text = ''Hi there'', msg_timestamp = dateNow e3, isPartial = None \<rparr>]
   \<and> currentInputRef (run initial
        [Message e1 sess (input_delta ''Hi ''), Message e2 sess (input_delta ''there''),
         Message e3 sess turnComplete_message]) = []"
proof -
  have tc: "turnComplete turnComplete_message"
    by (simp add: turnComplete_message_def no_parts_def)
  let ?d = "[(e1, ''Hi ''), (e2, ''there'')]"
  let ?s2 = "run (initial :: 'u State) (input_events sess ?d)"
  have r: "run initial
        [Message e1 sess (input_delta ''Hi ''), Message e2 sess (input_delta ''there''),
         Message e3 sess turnComplete_message]
      = onmessage_turnComplete e3 turnComplete_message ?s2"
    by (simp add: run_def input_events_def onmessage_input_delta onmessage_turnComplete_message)
  have s2: "chatHistory ?s2 = []" "currentInputRef ?s2 = ''Hi there''" "currentOutputRef ?s2 = []"
    using input_events_transcript [of "initial :: 'u State" sess ?d]
    by (simp_all add: initial_def)
  from turnComplete_transcript [OF tc, of e3 ?s2] s2
  have "chatHistory (onmessage_turnComplete e3 turnComplete_message ?s2)
      = [chatMessage e3 ''-user'' User ''Hi there'']"
    "currentInputRef (onmessage_turnComplete e3 turnComplete_message ?s2) = []"
    by simp_all
  with r tc show ?thesis
    using turnComplete_transcript [of msg e s]
    by (simp add: onmessage_turnComplete_message chatMessage_def)
qed

theorem turnComplete_commit_order_witness:
  "chatHistory (onmessage_turnComplete (demo_env 0) turnComplete_message
      ((initial :: int State)\<lparr>currentInputRef := ''q'', currentOutputRef := ''a''\<rparr>))
     = [\<lparr> msg_id = ''7-model'', msg_role = Model, msg_text = ''a'', msg_timestamp = 7,
          isPartial = None \<rparr>,
        \<lparr> msg_id = ''7-user'', msg_role = User, msg_text = ''q'', msg_timestamp = 7,
          isPartial = None \<rparr>]
   \<and> chatHistory (run (initial :: int State)
        [Message (demo_env 1) 0 (input_delta ''Hi ''), Message (demo_env 2) 0 (input_delta ''there''),
         Message (demo_env 3) 0 turnComplete_message])
       = [\<lparr> msg_id = ''7-user'', msg_role = User, msg_text = ''Hi there'', msg_timestamp = 7,
            isPartial = None \<rparr>]"
proof -
  have id7: "show_nat 7 = ''7''"
    by (simp add: show_nat.simps digit_char_def)
  have now: "dateNow (demo_env n) = 7" for n
    by (simp add: demo_env_def)
  have tc: "turnComplete turnComplete_message"
    by (simp add: turnComplete_message_def no_parts_def)
  have i: "chatHistory (initial :: int State) = []"
    by (simp add: initial_def)
  from turnComplete_commit_order [where msg = turnComplete_message and e = "demo_env 0"
      and s = "(initial :: int State)\<lparr>currentInputRef := ''q'', currentOutputRef := ''a''\<rparr>"
      and ?e1.0 = "demo_env 1" and ?e2.0 = "demo_env 2" and ?e3.0 = "demo_env 3" and sess = 0] tc
  show ?thesis
    by (simp add: chatMessage_def id7 now i)
qed

text \<open>
  C4. When the audio payload of a message decodes and the user transcript is not
  empty, the audio part of the handler commits the user transcript as a message of
  role \<^verbatim>\<open>user\<close> and empties it. Hence, from a state whose two transcripts are empty:
  after user deltas (not all empty) and an audio message, the history has grown by
  exactly the user's message, committed with the clock of the audio message; and
  after model deltas (not all empty) and a turn-complete signal more, it has grown
  by exactly two messages, the user's and then the model's.
\<close>

theorem audio_start_flush_precedence:
  fixes s :: "('t::{linorder,plus,zero}) State"
  shows
  "(inlineData msg = Some b \<and> b \<noteq> [] \<and> payload_duration e b = Some d
      \<and> currentInputRef s \<noteq> [] \<longrightarrow>
      (\<exists>s'. onmessage_audio e msg s = Inr s'
         \<and> chatHistory s' = chatHistory s @ [chatMessage e ''-user'' User (currentInputRef s)]
         \<and> currentInputRef s' = []))
   \<and> (currentInputRef s = [] \<and> currentOutputRef s = []
      \<and> concat (map snd us) \<noteq> [] \<and> concat (map snd ms) \<noteq> []
      \<and> b \<noteq> [] \<and> payload_duration e b = Some d \<longrightarrow>
      chatHistory (run s (input_events sess us @ [Message e sess (audio_message b)]))
        = chatHistory s @ [chatMessage e ''-user'' User (concat (map snd us))]
      \<and> chatHistory (run s (input_events sess us @ [Message e sess (audio_message b)]
            @ output_events sess ms @ [Message e' sess turnComplete_message]))
        = chatHistory s @ [chatMessage e ''-user'' User (concat (map snd us)),
                           chatMessage e' ''-model'' Model (concat (map snd ms))])"
proof (intro conjI impI)
  assume "inlineData msg = Some b \<and> b \<noteq> [] \<and> payload_duration e b = Some d
      \<and> currentInputRef s \<noteq> []"
  then show "\<exists>s'. onmessage_audio e msg s = Inr s'
         \<and> chatHistory s' = chatHistory s @ [chatMessage e ''-user'' User (currentInputRef s)]
         \<and> currentInputRef s' = []"
    using audio_transcript [of msg b e d s] by auto
next
  assume h: "currentInputRef s = [] \<and> currentOutputRef s = []
      \<and> concat (map snd us) \<noteq> [] \<and> concat (map snd ms) \<noteq> []
      \<and> b \<noteq> [] \<and> payload_duration e b = Some d"
  let ?s1 = "run s (input_events sess us)"
  have s1: "chatHistory ?s1 = chatHistory s" "currentInputRef ?s1 = concat (map snd us)"
    "currentOutputRef ?s1 = []"
    using input_events_transcript [of s sess us] h by simp_all
  from h audio_message_transcript [of b e d sess ?s1]
  obtain s2 where s2: "onmessage e sess (audio_message b) ?s1 = Inr s2"
    "chatHistory s2 = chatHistory ?s1
          @ (if currentInputRef ?s1 = [] then []
             else [chatMessage e ''-user'' User (currentInputRef ?s1)])"
    "currentInputRef s2 = []" "currentOutputRef s2 = currentOutputRef ?s1"
    by blast
  have r2: "run s (input_events sess us @ [Message e sess (audio_message b)]) = s2"
    using s2(1) by (simp add: run_append run_Cons run_Nil)
  have h2: "chatHistory s2 = chatHistory s @ [chatMessage e ''-user'' User (concat (map snd us))]"
    using s2(2) s1 h by simp
  let ?s3 = "run s2 (output_events sess ms)"
  have s3: "chatHistory ?s3 = chatHistory s2" "currentInputRef ?s3 = []"
    "currentOutputRef ?s3 = concat (map snd ms)"
    using output_events_transcript [of s2 sess ms] s2(3,4) s1(3) by simp_all
  have tc: "turnComplete turnComplete_message"
    by (simp add: turnComplete_message_def no_parts_def)
  have r4: "run s (input_events sess us @ [Message e sess (audio_message b)]
            @ output_events sess ms @ [Message e' sess turnComplete_message])
      = onmessage_turnComplete e' turnComplete_message ?s3"
    using s2(1)
    by (simp add: run_append run_Cons run_Nil onmessage_turnComplete_message)
  show "chatHistory (run s (input_events sess us @ [Message e sess (audio_message b)]))
        = chatHistory s @ [chatMessage e ''-user'' User (concat (map snd us))]"
    using r2 h2 by simp
  show "chatHistory (run s (input_events sess us @ [Message e sess (audio_message b)]
            @ output_events sess ms @ [Message e' sess turnComplete_message]))
        = chatHistory s @ [chatMessage e ''-user'' User (concat (map snd us)),
                           chatMessage e' ''-model'' Model (concat (map snd ms))]"
  proof -
    have ne: "currentOutputRef ?s3 \<noteq> []"
      using s3(3) h by simp
    have "chatHistory (onmessage_turnComplete e' turnComplete_message ?s3)
        = chatHistory ?s3 @ [chatMessage e' ''-model'' Model (currentOutputRef ?s3)]"
      using turnComplete_transcript [OF tc, of e' ?s3] ne s3(2) by simp
    also have "\<dots> = chatHistory s @ [chatMessage e ''-user'' User (concat (map snd us)),
                           chatMessage e' ''-model'' Model (concat (map snd ms))]"
      by (simp only: s3 h2 append.simps append_assoc)
    finally show ?thesis
      by (simp only: r4)
  qed
qed

theorem audio_start_flush_precedence_witness:
  "chatHistory (run (initial :: int State)
      (input_events 0 [(demo_env 1, ''Hi ''), (demo_env 2, ''there'')]
        @ [Message (demo_env 3) 0 (audio_message ''ab'')]))
     = [\<lparr> msg_id = ''7-user'', msg_role = User, msg_text = ''Hi there'', msg_timestamp = 7,
          isPartial = None \<rparr>]
   \<and> chatHistory (run (initial :: int State)
      (input_events 0 [(demo_env 1, ''Hi ''), (demo_env 2, ''there'')]
        @ [Message (demo_env 3) 0 (audio_message ''ab'')]
        @ output_events 0 [(demo_env 4, ''Hello'')]
        @ [Message (demo_env 5) 0 turnComplete_message]))
     = [\<lparr> msg_id = ''7-user'', msg_role = User, msg_text = ''Hi there'', msg_timestamp = 7,
          isPartial = None \<rparr>,
        \<lparr> msg_id = ''7-model'', msg_role = Model, msg_text = ''Hello'', msg_timestamp = 7,
          isPartial = None \<rparr>]"
proof -
  have id7: "show_nat 7 = ''7''"
    by (simp add: show_nat.simps digit_char_def)
  have now: "dateNow (demo_env n) = 7" for n
    by (simp add: demo_env_def)
  have d: "payload_duration (demo_env 3) ''ab'' = Some 2"
    by (simp add: payload_duration_def demo_env_def)
  have i: "currentInputRef (initial :: int State) = []" "currentOutputRef (initial :: int State) = []"
    "chatHistory (initial :: int State) = []"
    by (simp_all add: initial_def)
  from audio_start_flush_precedence [where s = "initial :: int State" and b = "''ab''"
      and e = "demo_env 3" and d = 2 and e' = "demo_env 5" and sess = 0
      and us = "[(demo_env 1, ''Hi ''), (demo_env 2, ''there'')]"
      and ms = "[(demo_env 4, ''Hello'')]"] d i
  show ?thesis
    by (simp add: chatMessage_def id7 now)
qed




section \<open>Tool calls\<close>

text \<open>
  C6, as the code has it. The claim speaks of every inbound batch. A batch with a
  well-formed \<^verbatim>\<open>set_emotion\<close> call followed by a \<^verbatim>\<open>set_emotion\<close> call that has no
  \<^verbatim>\<open>args\<close> object makes the handler throw at line 1185, before the send of line
  1195: the first call has set the emotion, and no response is sent, not even for
  the first call. A tool call whose \<^verbatim>\<open>functionCalls\<close> is \<^verbatim>\<open>undefined\<close> makes the handler
  throw at line 1182.
\<close>

theorem tool_dispatch_counterexample:
  "known_call (set_emotion_call ''c1'' ''anger'')
   \<and> thrown (onmessage (demo_env 0) 0
        (toolCall_message [set_emotion_call ''c1'' ''anger'', bare_call ''c2''])
        (initial :: int State)) = Some TypeError
   \<and> effects (state_after (onmessage (demo_env 0) 0
        (toolCall_message [set_emotion_call ''c1'' ''anger'', bare_call ''c2''])
        (initial :: int State))) = []
   \<and> currentEmotion (state_after (onmessage (demo_env 0) 0
        (toolCall_message [set_emotion_call ''c1'' ''anger'', bare_call ''c2''])
        (initial :: int State))) = Some ''anger''
   \<and> thrown (onmessage (demo_env 0) 0
        (no_parts\<lparr>toolCall := Some \<lparr>functionCalls = None\<rparr>\<rparr>)
        (initial :: int State)) = Some TypeError"
proof -
  have l: "toolCall_loop (demo_env 0) [set_emotion_call ''c1'' ''anger'', bare_call ''c2'']
          (initial :: int State, [])
      = Inl (TypeError,
          (addLog (demo_env 0) ''Tool: set_emotion(anger)'' initial)
            \<lparr>currentEmotion := Some ''anger''\<rparr>)"
    by (simp add: set_emotion_call_def bare_call_def emotion_text_def Let_def)
  have om: "onmessage_toolCall e sess (toolCall_message fcs) s
      = (case toolCall_loop e fcs (s, []) of
           Inl err \<Rightarrow> Inl err
         | Inr (s1, responses) \<Rightarrow>
             Inr (if responses \<noteq> []
                  then s1\<lparr>effects := effects s1 @ [SendToolResponse sess responses]\<rparr>
                  else s1))" for e :: "int env" and sess fcs s
    by (simp add: onmessage_toolCall_def toolCall_message_def)
  have "onmessage (demo_env 0) 0
        (toolCall_message [set_emotion_call ''c1'' ''anger'', bare_call ''c2''])
        (initial :: int State)
      = Inl (TypeError,
          (addLog (demo_env 0) ''Tool: set_emotion(anger)'' initial)
            \<lparr>currentEmotion := Some ''anger''\<rparr>)"
    unfolding onmessage_toolCall_message om l by simp
  moreover have "onmessage (demo_env 0) 0
        (no_parts\<lparr>toolCall := Some \<lparr>functionCalls = None\<rparr>\<rparr>) (initial :: int State)
      = Inl (TypeError, initial)"
    by (simp add: onmessage_def onmessage_toolCall_def)
  ultimately show ?thesis
    by (simp add: known_call_def set_emotion_call_def addLog_def initial_def)
qed

text \<open>
  C6, amended. For a tool-call batch whose list of calls is there and whose
  \<^verbatim>\<open>set_emotion\<close> calls all have an \<^verbatim>\<open>args\<close> object, the tool-call part of the handler
  comes to its end and sends one response for each call named \<^verbatim>\<open>set_emotion\<close>, in
  the order of the calls, with the id and the name of the call and the result
  \<^verbatim>\<open>success\<close>, and none for a call of another name; the responses go out together in
  a single \<^verbatim>\<open>sendToolResponse\<close> (nothing is sent when no call is known); afterwards
  the current emotion is the argument \<^verbatim>\<open>emotion\<close> of the last \<^verbatim>\<open>set_emotion\<close> call, and
  unchanged when there is none. A message that carries the batch only does exactly
  what the tool-call part does. A batch of one such known call and one unknown call
  is handled to the end and yields exactly one response, for the known call.
\<close>

theorem tool_dispatch_round_trip:
  fixes s :: "('t::{linorder,plus,zero}) State"
  shows
  "(toolCall msg = Some tc \<and> functionCalls tc = Some fcs \<and> list_all call_ok fcs \<longrightarrow>
      (\<exists>s1. onmessage_toolCall e sess msg s = Inr s1
         \<and> effects s1 = effects s
              @ (if filter known_call fcs = [] then []
                 else [SendToolResponse sess (map success_response (filter known_call fcs))])
         \<and> currentEmotion s1 =
              (if filter known_call fcs = [] then currentEmotion s
               else emotion_arg (last (filter known_call fcs)))))
   \<and> onmessage e sess (toolCall_message fcs) s
        = onmessage_toolCall e sess (toolCall_message fcs) s
   \<and> toolCall (toolCall_message fcs) = Some \<lparr>functionCalls = Some fcs\<rparr>
   \<and> success_response fc
        = \<lparr> fr_id = fc_id fc, fr_name = fc_name fc, fr_response = [(''result'', ''success'')] \<rparr>
   \<and> (known_call fc1 \<and> call_ok fc1 \<and> \<not> known_call fc2 \<longrightarrow>
        thrown (onmessage e sess (toolCall_message [fc1, fc2]) s) = None
        \<and> effects (state_after (onmessage e sess (toolCall_message [fc1, fc2]) s))
          = effects s @ [SendToolResponse sess [success_response fc1]]
        \<and> currentEmotion (state_after (onmessage e sess (toolCall_message [fc1, fc2]) s))
          = emotion_arg fc1)"
proof (intro conjI impI)
  assume "toolCall msg = Some tc \<and> functionCalls tc = Some fcs \<and> list_all call_ok fcs"
  then show "\<exists>s1. onmessage_toolCall e sess msg s = Inr s1
         \<and> effects s1 = effects s
              @ (if filter known_call fcs = [] then []
                 else [SendToolResponse sess (map success_response (filter known_call fcs))])
         \<and> currentEmotion s1 =
              (if filter known_call fcs = [] then currentEmotion s
               else emotion_arg (last (filter known_call fcs)))"
    using onmessage_toolCall_result [of msg tc fcs e sess s] by blast
next
  show "onmessage e sess (toolCall_message fcs) s
        = onmessage_toolCall e sess (toolCall_message fcs) s"
    by (rule onmessage_toolCall_message)
  show "toolCall (toolCall_message fcs) = Some \<lparr>functionCalls = Some fcs\<rparr>"
    by (simp add: toolCall_message_def)
  show "success_response fc
        = \<lparr> fr_id = fc_id fc, fr_name = fc_name fc, fr_response = [(''result'', ''success'')] \<rparr>"
    by (simp add: success_response_def)
next
  assume h: "known_call fc1 \<and> call_ok fc1 \<and> \<not> known_call fc2"
  have t: "toolCall (toolCall_message [fc1, fc2]) = Some \<lparr>functionCalls = Some [fc1, fc2]\<rparr>"
    by (simp add: toolCall_message_def)
  have ok: "list_all call_ok [fc1, fc2]"
    using h by (simp add: call_ok_def)
  from onmessage_toolCall_result [OF t _ ok, of e sess s] h
  obtain s1 where s1: "onmessage_toolCall e sess (toolCall_message [fc1, fc2]) s = Inr s1"
    "effects s1 = effects s @ [SendToolResponse sess [success_response fc1]]"
    "currentEmotion s1 = emotion_arg fc1"
    by auto
  then show "thrown (onmessage e sess (toolCall_message [fc1, fc2]) s) = None"
    "effects (state_after (onmessage e sess (toolCall_message [fc1, fc2]) s))
          = effects s @ [SendToolResponse sess [success_response fc1]]"
    "currentEmotion (state_after (onmessage e sess (toolCall_message [fc1, fc2]) s))
          = emotion_arg fc1"
    by (simp_all add: onmessage_toolCall_message)
qed

theorem tool_dispatch_round_trip_witness:
  "effects (state_after (onmessage (demo_env 0) 0
       (toolCall_message [set_emotion_call ''c1'' ''anger'', other_call ''c2''])
       (initial :: int State)))
     = [SendToolResponse 0
          [\<lparr> fr_id = Some ''c1'', fr_name = Some ''set_emotion'',
             fr_response = [(''result'', ''success'')] \<rparr>]]
   \<and> currentEmotion (state_after (onmessage (demo_env 0) 0
       (toolCall_message [set_emotion_call ''c1'' ''anger'', other_call ''c2''])
       (initial :: int State))) = Some ''anger''
   \<and> (\<exists>s1. onmessage_toolCall (demo_env 0) 0
         (toolCall_message [set_emotion_call ''c1'' ''joy'', other_call ''c2'',
                            set_emotion_call ''c3'' ''fear''])
         (initial :: int State) = Inr s1
       \<and> effects s1
         = [SendToolResponse 0
              [\<lparr> fr_id = Some ''c1'', fr_name = Some ''set_emotion'',
                 fr_response = [(''result'', ''success'')] \<rparr>,
               \<lparr> fr_id = Some ''c3'', fr_name = Some ''set_emotion'',
                 fr_response = [(''result'', ''success'')] \<rparr>]]
       \<and> currentEmotion s1 = Some ''fear'')"
proof -
  have k: "known_call (set_emotion_call i v)" "\<not> known_call (other_call i)"
    "call_ok (set_emotion_call i v)" "call_ok (other_call i)" for i v
    by (simp_all add: known_call_def call_ok_def set_emotion_call_def other_call_def)
  have f: "fc_id (set_emotion_call i v) = Some i"
    "fc_name (set_emotion_call i v) = Some ''set_emotion''"
    "emotion_arg (set_emotion_call i v) = Some v" for i v
    by (simp_all add: set_emotion_call_def emotion_arg_def)
  have i: "effects (initial :: int State) = []"
    by (simp add: initial_def)
  have t: "toolCall (toolCall_message fcs) = Some \<lparr>functionCalls = Some fcs\<rparr>" for fcs
    by (simp add: toolCall_message_def)
  from tool_dispatch_round_trip [where s = "initial :: int State" and e = "demo_env 0"
      and sess = 0 and ?fc1.0 = "set_emotion_call ''c1'' ''anger''" and ?fc2.0 = "other_call ''c2''"
      and msg = "toolCall_message [set_emotion_call ''c1'' ''joy'', other_call ''c2'',
                          set_emotion_call ''c3'' ''fear'']"
      and tc = "\<lparr>functionCalls = Some [set_emotion_call ''c1'' ''joy'', other_call ''c2'',
                          set_emotion_call ''c3'' ''fear'']\<rparr>"
      and fcs = "[set_emotion_call ''c1'' ''joy'', other_call ''c2'',
                          set_emotion_call ''c3'' ''fear'']"
      and fc = "set_emotion_call ''c1'' ''anger''"]
  show ?thesis
    by (simp add: k f i t success_response_def)
qed

section \<open>The transport error and the teardown\<close>

text \<open>
  C7. What the code does on a transport error: \<^verbatim>\<open>onerror\<close> stores the error message
  \<^verbatim>\<open>"Connection error occurred."\<close>, sets the connection state to \<^verbatim>\<open>ERROR\<close> and then
  calls \<^verbatim>\<open>stopEverything\<close>, which performs the cleanup and whose last statement sets
  the connection state to \<^verbatim>\<open>DISCONNECTED\<close>. So the state after the callback is
  \<^verbatim>\<open>DISCONNECTED\<close>, not \<^verbatim>\<open>ERROR\<close>, from every state, and in particular for a
  connected session. The other error path, the \<^verbatim>\<open>catch\<close> of \<^verbatim>\<open>connectToGemini\<close>, does
  leave the state \<^verbatim>\<open>ERROR\<close>.
\<close>

theorem onerror_ends_disconnected:
  fixes s :: "('t::zero) State"
  shows
  "connectionState (onerror e m s) = DISCONNECTED
   \<and> errorMsg (onerror e m s) = Some ''Connection error occurred.''
   \<and> sessionPromiseRef (onerror e m s) = None
   \<and> sourcesRef (onerror e m s) = []
   \<and> nextStartTimeRef (onerror e m s) = 0
   \<and> currentInputRef (onerror e m s) = []
   \<and> currentOutputRef (onerror e m s) = []
   \<and> connectionState (run (initial :: int State)
        [MediaReady 1, Toggle (demo_env 0) (Inr 2), Open (demo_env 1) 3 4 (Some 5),
         Error (demo_env 2) ''boom'']) = DISCONNECTED
   \<and> connectionState (connectToGemini e (Inl m) (s\<lparr>mediaStream := Some x\<rparr>)) = ERROR"
proof -
  have "connectionState (run (initial :: int State)
        [MediaReady 1, Toggle (demo_env 0) (Inr 2), Open (demo_env 1) 3 4 (Some 5),
         Error (demo_env 2) ''boom'']) = DISCONNECTED"
    by (simp add: run_def onerror_def stopEverything_fields)
  moreover have "connectionState (connectToGemini e (Inl m) (s\<lparr>mediaStream := Some x\<rparr>)) = ERROR"
    by (simp add: connectToGemini_def addLog_def Let_def)
  ultimately show ?thesis
    using stopEverything_fields [of e "(addLog e (''Session Error: '' @ m) s)
          \<lparr> errorMsg := Some ''Connection error occurred.'', connectionState := ERROR \<rparr>"]
    by (simp add: onerror_def)
qed

text \<open>
  C8. \<^verbatim>\<open>stopEverything\<close> is a total function of the state: whatever the state, it
  ends, and afterwards the connection state is \<^verbatim>\<open>DISCONNECTED\<close>, the frame timer,
  the script processor, the input source and the session promise are cleared, the
  active set is empty, the playback cursor is 0 and the transcript accumulators are
  empty. On its way it calls, in this order and on what it finds: \<^verbatim>\<open>clearInterval\<close>
  on the frame timer, \<^verbatim>\<open>disconnect\<close> on the script processor and on the input
  source, \<^verbatim>\<open>stop\<close> on every source of the active set and \<^verbatim>\<open>close\<close> on the session;
  it makes no other call, adds one line to the debug log, and leaves the error
  message, the media stream, the emotion and the history as they are. A second call
  right after the first changes nothing but the debug log, to which it adds its
  line, and calls nothing: with the debug log set aside, the two states are the
  same. The same holds for a call in the state at mount, where no session was ever
  started.
\<close>

theorem stopEverything_idempotent:
  fixes s :: "('t::zero) State"
  shows
  "connectionState (stopEverything e s) = DISCONNECTED
   \<and> frameIntervalRef (stopEverything e s) = None
   \<and> scriptProcessorRef (stopEverything e s) = None
   \<and> inputSourceRef (stopEverything e s) = None
   \<and> sessionPromiseRef (stopEverything e s) = None
   \<and> sourcesRef (stopEverything e s) = []
   \<and> nextStartTimeRef (stopEverything e s) = 0
   \<and> currentInputRef (stopEverything e s) = []
   \<and> currentOutputRef (stopEverything e s) = []
   \<and> currentInput (stopEverything e s) = []
   \<and> currentOutput (stopEverything e s) = []
   \<and> effects (stopEverything e s) = effects s
        @ (case frameIntervalRef s of None \<Rightarrow> [] | Some i \<Rightarrow> [ClearInterval i])
        @ (case scriptProcessorRef s of None \<Rightarrow> [] | Some n \<Rightarrow> [NodeDisconnect n])
        @ (case inputSourceRef s of None \<Rightarrow> [] | Some n \<Rightarrow> [NodeDisconnect n])
        @ map SourceStop (sourcesRef s)
        @ (case sessionPromiseRef s of None \<Rightarrow> [] | Some p \<Rightarrow> [SessionClose p])
   \<and> logs (stopEverything e s) = log_entry e ''Stopping session...'' # take 24 (logs s)
   \<and> errorMsg (stopEverything e s) = errorMsg s
   \<and> mediaStream (stopEverything e s) = mediaStream s
   \<and> currentEmotion (stopEverything e s) = currentEmotion s
   \<and> chatHistory (stopEverything e s) = chatHistory s
   \<and> effects (stopEverything e' (stopEverything e s)) = effects (stopEverything e s)
   \<and> stopEverything e' (stopEverything e s) = addLog e' ''Stopping session...'' (stopEverything e s)
   \<and> (stopEverything e' (stopEverything e s))\<lparr>logs := l\<rparr> = (stopEverything e s)\<lparr>logs := l\<rparr>
   \<and> stopEverything e (initial :: 't State) = addLog e ''Stopping session...'' initial"
proof -
  note f = stopEverything_fields [of e s]
  note g = stopEverything_effects [of e s]
  have l: "logs (stopEverything e s) = log_entry e ''Stopping session...'' # take 24 (logs s)"
    by (simp add: stopEverything_def clearTranscript_def closeSession_def stopSources_def
      disconnectInputSource_def disconnectScriptProcessor_def clearFrameInterval_def addLog_def
      take_Cons' split: option.splits)
  have u: "mediaStream (stopEverything e s) = mediaStream s"
    "currentEmotion (stopEverything e s) = currentEmotion s"
    "chatHistory (stopEverything e s) = chatHistory s"
    by (simp_all add: stopEverything_def clearTranscript_def closeSession_def stopSources_def
      disconnectInputSource_def disconnectScriptProcessor_def clearFrameInterval_def addLog_def
      split: option.splits)
  have a: "stopEverything e' (stopEverything e s) = addLog e' ''Stopping session...'' (stopEverything e s)"
    by (rule stopEverything_idle) (simp_all add: f)
  then have b: "effects (stopEverything e' (stopEverything e s)) = effects (stopEverything e s)"
    "(stopEverything e' (stopEverything e s))\<lparr>logs := l\<rparr> = (stopEverything e s)\<lparr>logs := l\<rparr>"
    by (simp_all add: addLog_def)
  have c: "stopEverything e (initial :: 't State) = addLog e ''Stopping session...'' initial"
    by (rule stopEverything_idle) (simp_all add: initial_def)
  from f g l u a b c show ?thesis by (simp only: simp_thms)
qed

section \<open>The current emotion\<close>

text \<open>
  C9, as the code has it. The claim says that the current emotion is a member of the
  declared enumeration in every reachable state and equals \<^verbatim>\<open>normal\<close> at session
  start. The handler stores the argument of a \<^verbatim>\<open>set_emotion\<close> call without comparing
  it with the enumeration: from the state at mount, a call with the argument
  \<^verbatim>\<open>happy\<close> leaves the current emotion \<^verbatim>\<open>happy\<close>, which the enumeration does not
  have. Neither \<^verbatim>\<open>connectToGemini\<close> nor \<^verbatim>\<open>stopEverything\<close> writes the emotion: after
  a session that set \<^verbatim>\<open>anger\<close> was stopped, the next session starts (state
  \<^verbatim>\<open>CONNECTING\<close>) with the emotion \<^verbatim>\<open>anger\<close>.
\<close>

theorem emotion_state_counterexample:
  "currentEmotion (run (initial :: int State)
      [Message (demo_env 0) 0 (toolCall_message [set_emotion_call ''c1'' ''happy''])])
     = Some ''happy''
   \<and> \<not> declared_emotion (Some ''happy'')
   \<and> connectionState (run (initial :: int State)
      [MediaReady 1, Toggle (demo_env 0) (Inr 2), Open (demo_env 1) 3 4 (Some 5),
       Message (demo_env 2) 2 (toolCall_message [set_emotion_call ''c1'' ''anger'']),
       Toggle (demo_env 3) (Inr 2), Toggle (demo_env 4) (Inr 6)]) = CONNECTING
   \<and> currentEmotion (run (initial :: int State)
      [MediaReady 1, Toggle (demo_env 0) (Inr 2), Open (demo_env 1) 3 4 (Some 5),
       Message (demo_env 2) 2 (toolCall_message [set_emotion_call ''c1'' ''anger'']),
       Toggle (demo_env 3) (Inr 2), Toggle (demo_env 4) (Inr 6)]) = Some ''anger''"
proof -
  have k: "known_call (set_emotion_call i v)" "call_ok (set_emotion_call i v)"
    "emotion_arg (set_emotion_call i v) = Some v" for i v
    by (simp_all add: known_call_def call_ok_def emotion_arg_def set_emotion_call_def)
  have t: "toolCall (toolCall_message fcs) = Some \<lparr>functionCalls = Some fcs\<rparr>" for fcs
    by (simp add: toolCall_message_def)
  have m: "currentEmotion (state_after (onmessage e sess (toolCall_message [set_emotion_call i v]) s))
      = Some v" for e :: "int env" and sess i v s
    using message_emotion [of "toolCall_message [set_emotion_call i v]"
        "\<lparr>functionCalls = Some [set_emotion_call i v]\<rparr>" "[set_emotion_call i v]" e sess s]
    by (simp add: k t)
  have a: "currentEmotion (run (initial :: int State)
      [Message (demo_env 0) 0 (toolCall_message [set_emotion_call ''c1'' ''happy''])])
     = Some ''happy''"
    by (simp add: run_def m)
  have b: "\<not> declared_emotion (Some ''happy'')"
    by (simp add: declared_emotion_def emotion_enum_def)
  have c: "currentEmotion (run (initial :: int State)
      [MediaReady 1, Toggle (demo_env 0) (Inr 2), Open (demo_env 1) 3 4 (Some 5),
       Message (demo_env 2) 2 (toolCall_message [set_emotion_call ''c1'' ''anger'']),
       Toggle (demo_env 3) (Inr 2), Toggle (demo_env 4) (Inr 6)]) = Some ''anger''"
    by (simp add: run_def m toggleConnection_def stopEverything_emotion
        connectToGemini_emotion split: option.splits)
  define s3 where "s3 = run (initial :: int State)
      [MediaReady 1, Toggle (demo_env 0) (Inr 2), Open (demo_env 1) 3 4 (Some 5)]"
  have s3: "mediaStream s3 = Some 1" "connectionState s3 = CONNECTED"
    unfolding s3_def
    by (simp_all add: run_def initial_def toggleConnection_def connectToGemini_def onopen_def
        addLog_def Let_def)
  have "connectionState (run s3
       [Message (demo_env 2) 2 (toolCall_message [set_emotion_call ''c1'' ''anger'']),
        Toggle (demo_env 3) (Inr 2), Toggle (demo_env 4) (Inr 6)]) = CONNECTING"
    by (simp add: run_Cons run_Nil onmessage_connection s3 toggleConnection_def
        stopEverything_connection connectToGemini_def addLog_def Let_def)
  then have d: "connectionState (run (initial :: int State)
      ([MediaReady 1, Toggle (demo_env 0) (Inr 2), Open (demo_env 1) 3 4 (Some 5)]
       @ [Message (demo_env 2) 2 (toolCall_message [set_emotion_call ''c1'' ''anger'']),
       Toggle (demo_env 3) (Inr 2), Toggle (demo_env 4) (Inr 6)])) = CONNECTING"
    by (simp only: run_append s3_def)
  show ?thesis
    using a b c d by simp
qed

text \<open>
  C9, amended. The current emotion is \<^verbatim>\<open>normal\<close>, a member of the declared
  enumeration, when the component mounts. An event that carries no \<^verbatim>\<open>set_emotion\<close>
  call leaves it as it is, whatever the event: the media stream, the call button
  (start and stop), the transport's open, close and error callbacks, any other
  message, the end of a source, the teardown, a log entry. An event that changes it
  is a message with a tool-call batch, and the new value is the argument of a
  \<^verbatim>\<open>set_emotion\<close> call of the batch: of the last one, when every \<^verbatim>\<open>set_emotion\<close> call
  of the batch has an \<^verbatim>\<open>args\<close> object, so that the handler does not throw. Hence, after any sequence of events whose
  \<^verbatim>\<open>set_emotion\<close> calls all carry a member of the declared enumeration, the current
  emotion is a member of the declared enumeration.
\<close>

theorem emotion_state_invariant:
  fixes s :: "('t::{linorder,plus,zero}) State"
  shows
  "currentEmotion (initial :: 't State) = Some ''normal''
   \<and> declared_emotion (Some ''normal'')
   \<and> (\<not> sets_emotion ev \<longrightarrow> currentEmotion (step s ev) = currentEmotion s)
   \<and> (sets_emotion ev \<longrightarrow>
        (\<exists>e sess msg tc fcs. ev = Message e sess msg \<and> toolCall msg = Some tc
           \<and> functionCalls tc = Some fcs \<and> filter known_call fcs \<noteq> []
           \<and> (currentEmotion (step s ev) = currentEmotion s
                \<or> currentEmotion (step s ev) \<in> emotion_arg ` set (filter known_call fcs))
           \<and> (list_all call_ok fcs \<longrightarrow>
                currentEmotion (step s ev) = emotion_arg (last (filter known_call fcs)))))
   \<and> (list_all calls_declared evs \<longrightarrow>
        declared_emotion (currentEmotion (run (initial :: 't State) evs)))"
proof (intro conjI impI)
  show i: "currentEmotion (initial :: 't State) = Some ''normal''"
    by (simp add: initial_def)
  show n: "declared_emotion (Some ''normal'')"
    by (simp add: declared_emotion_def emotion_enum_def)
  {
    assume "\<not> sets_emotion ev"
    then show "currentEmotion (step s ev) = currentEmotion s"
      by (rule step_emotion)
  }
  {
    assume "sets_emotion ev"
    then obtain e sess msg tc fcs where ev: "ev = Message e sess msg" "toolCall msg = Some tc"
      "functionCalls tc = Some fcs" "filter known_call fcs \<noteq> []"
      by (cases ev) (auto split: option.splits)
    from onmessage_toolCall_emotion [of e sess msg s] ev
    have any: "currentEmotion (step s ev) = currentEmotion s
        \<or> currentEmotion (step s ev) \<in> emotion_arg ` set (filter known_call fcs)"
      by (auto simp: onmessage_emotion)
    have last: "list_all call_ok fcs \<longrightarrow>
        currentEmotion (step s ev) = emotion_arg (last (filter known_call fcs))"
      using message_emotion [OF ev(2,3), of e sess s] ev(1,4) by simp
    from ev any last
    show "\<exists>e sess msg tc fcs. ev = Message e sess msg \<and> toolCall msg = Some tc
           \<and> functionCalls tc = Some fcs \<and> filter known_call fcs \<noteq> []
           \<and> (currentEmotion (step s ev) = currentEmotion s
                \<or> currentEmotion (step s ev) \<in> emotion_arg ` set (filter known_call fcs))
           \<and> (list_all call_ok fcs \<longrightarrow>
                currentEmotion (step s ev) = emotion_arg (last (filter known_call fcs)))"
      by blast
  }
  {
    assume "list_all calls_declared evs"
    then show "declared_emotion (currentEmotion (run (initial :: 't State) evs))"
      using i n by (simp add: run_declared)
  }
qed

theorem emotion_state_invariant_witness:
  "declared_emotion (currentEmotion (run (initial :: int State)
      [MediaReady 1, Toggle (demo_env 0) (Inr 2), Open (demo_env 1) 3 4 (Some 5),
       Message (demo_env 2) 2 (toolCall_message [set_emotion_call ''c1'' ''anger'', other_call ''c2'']),
       Message (demo_env 3) 2 (audio_message ''ab''),
       Error (demo_env 4) ''boom'']))
   \<and> currentEmotion (step ((initial :: int State)\<lparr>currentEmotion := Some ''joy''\<rparr>)
        (Error (demo_env 4) ''boom'')) = Some ''joy''
   \<and> currentEmotion (step (initial :: int State)
        (Message (demo_env 2) 2 (toolCall_message [set_emotion_call ''c1'' ''anger''])))
       = Some ''anger''"
proof -
  have k: "known_call (set_emotion_call i v)" "\<not> known_call (other_call i)"
    "call_ok (set_emotion_call i v)"
    "emotion_arg (set_emotion_call i v) = Some v" for i v
    by (simp_all add: known_call_def call_ok_def emotion_arg_def set_emotion_call_def
        other_call_def)
  have t: "toolCall (toolCall_message fcs) = Some \<lparr>functionCalls = Some fcs\<rparr>"
    "toolCall (audio_message b) = None" for fcs b
    by (simp_all add: toolCall_message_def audio_message_def no_parts_def)
  have d: "declared_emotion (Some ''anger'')"
    by (simp add: declared_emotion_def emotion_enum_def)
  let ?evs = "[MediaReady 1, Toggle (demo_env 0) (Inr 2), Open (demo_env 1) 3 4 (Some 5),
       Message (demo_env 2) 2 (toolCall_message [set_emotion_call ''c1'' ''anger'', other_call ''c2'']),
       Message (demo_env 3) 2 (audio_message ''ab''),
       Error (demo_env 4) ''boom'']"
  have ok: "list_all calls_declared ?evs"
    by (simp add: k t d)
  have a: "declared_emotion (currentEmotion (run (initial :: int State) ?evs))"
    using emotion_state_invariant [where evs = ?evs and s = "initial :: int State"
        and ev = "Error (demo_env 4) ''boom''"] ok
    by blast
  have b: "currentEmotion (step ((initial :: int State)\<lparr>currentEmotion := Some ''joy''\<rparr>)
        (Error (demo_env 4) ''boom'')) = Some ''joy''"
    using emotion_state_invariant [where evs = ?evs
        and s = "(initial :: int State)\<lparr>currentEmotion := Some ''joy''\<rparr>"
        and ev = "Error (demo_env 4) ''boom''"]
    by simp
  have c: "currentEmotion (step (initial :: int State)
        (Message (demo_env 2) 2 (toolCall_message [set_emotion_call ''c1'' ''anger''])))
       = Some ''anger''"
    using emotion_state_invariant [where evs = ?evs and s = "initial :: int State"
        and ev = "Message (demo_env 2) 2 (toolCall_message [set_emotion_call ''c1'' ''anger''])"]
    by (auto simp: k t)
  from a b c show ?thesis by blast
qed

section \<open>The debug log is bounded\<close>

text \<open>
  C10. After a call of \<^verbatim>\<open>addLog\<close> the log has at most 25 entries, the new entry is
  the first one, and the entries after it are the first 24 of the old log, in their
  old order: nothing is reordered, only entries beyond the 25th are dropped.
\<close>

theorem addLog_bounded_newest_first:
  "length (logs (addLog e msg s)) \<le> 25
   \<and> logs (addLog e msg s) = log_entry e msg # take 24 (logs s)"
  by (simp add: addLog_def take_Cons')


end
